theory Spec2Isabelle
  imports Complex_Main
begin

section \<open>Turtle's Adventure: the data model of \<open>turtle_adventure.py\<close>\<close>

text \<open>
  Coordinates, sizes and real-valued speeds are modelled as real numbers (Python's
  floats, idealised); levels, screen dimensions, tick counters and the random walker's
  speed are Python integers. Every method that mutates the game or an element takes the
  state and returns the new one. A raised exception is a value of type \<open>error\<close>.
\<close>

datatype error = ValueError | ZeroDivisionError

subsection \<open>The canvas and the random number generator\<close>

text \<open>
  The Tk canvas is a collaborator outside the module. The model keeps the calls the
  module makes on it, in order; an item's identifier is the number of the creating call.
\<close>

datatype canvas_call =
    Create_line string
  | Create_rectangle string
  | Create_oval string
  | Create_text real real string string
  | Itemconfigure "nat option" string
  | Delete "nat option"

fun is_create :: "canvas_call \<Rightarrow> bool" where
  "is_create (Create_line fill) = True"
| "is_create (Create_rectangle fill) = True"
| "is_create (Create_oval fill) = True"
| "is_create (Create_text tx ty txt fill) = True"
| "is_create (Itemconfigure i fill) = False"
| "is_create (Delete i) = False"

definition next_id :: "canvas_call list \<Rightarrow> nat" where
  "next_id cs = Suc (length (filter is_create cs))"

text \<open>
  \<open>random.randint(lo, hi)\<close>: the generator's raw output is the argument \<open>u\<close>; the result
  is \<open>lo + u mod (hi - lo + 1)\<close>, so every \<open>u\<close> gives a value of the range and every
  value of the range comes from some \<open>u\<close>. An empty range raises \<open>ValueError\<close>.
\<close>

definition randint :: "int \<Rightarrow> int \<Rightarrow> nat \<Rightarrow> error + int" where
  "randint lo hi u =
     (if hi < lo then Inl ValueError else Inr (lo + int u mod (hi - lo + 1)))"

text \<open>\<open>random.choice\<close> on a list that is not empty.\<close>

definition choice :: "'a list \<Rightarrow> nat \<Rightarrow> 'a" where
  "choice xs u = xs ! (u mod length xs)"

subsection \<open>Elements\<close>

record enemy =
  enemy_x :: real
  enemy_y :: real
  enemy_size :: real
  enemy_color :: string

text \<open>The walker's \<open>self.state\<close> holds one of its bound methods \<open>left\<close> and \<open>right\<close>.\<close>

datatype walk_state = Walk_left | Walk_right

record random_walk_enemy = enemy +
  rw_id :: "nat option"
  rw_color2 :: string
  rw_state :: walk_state
  rw_speed :: int

datatype chase_xstate = Chase_left | Chase_right

datatype chase_ystate = Chase_up | Chase_down

record chasing_enemy = enemy +
  ch_id :: "nat option"
  ch_color2 :: string
  ch_xstate :: chase_xstate
  ch_ystate :: chase_ystate
  ch_speed :: real

datatype fence_state = Fence_down | Fence_right | Fence_up | Fence_left

record fencing_enemy = enemy +
  fe_id :: "nat option"
  fe_color2 :: string
  fe_state :: fence_state
  fe_speed :: real
  home_top :: real
  home_bottom :: real
  home_left :: real
  home_right :: real

record de_destroyer_enemy = enemy +
  dd_id :: "nat option"
  dd_id2 :: "nat option"
  dd_id3 :: "nat option"
  dd_color2 :: string
  dd_timer :: int
  distance_barrel :: int

record bomb = enemy +
  bomb_id :: "nat option"
  bomb_timer :: int

text \<open>
  The waypoint, the home and the player are single objects that the game also holds
  in attributes of their own; the element collection refers to them by a tag. An enemy
  or a bomb is referenced from the collection only, so the collection holds its value.
\<close>

datatype element =
    EWaypoint
  | EHome
  | EPlayer
  | ERandomWalk random_walk_enemy
  | EChasing chasing_enemy
  | EFencing fencing_enemy
  | EDeDestroyer de_destroyer_enemy
  | EBomb bomb

record waypoint =
  wp_id1 :: "nat option"
  wp_id2 :: "nat option"
  wp_active :: bool
  wp_x :: real
  wp_y :: real

record home =
  hm_id :: "nat option"
  hm_size :: real
  hm_x :: real
  hm_y :: real

text \<open>
  The player's position is its turtle's. \<open>RawTurtle\<close> (Python's standard library) keeps
  a position and an orientation, a unit vector; the model keeps both, over the reals.
\<close>

record turtle =
  t_position :: "real \<times> real"
  t_orient :: "real \<times> real"

record player =
  pl_speed :: real
  pl_turtle :: turtle

record enemy_generator =
  gen_level :: int
  gen_speed :: int

text \<open>
  The game object. Its first eight fields are the attributes that
  \<open>TurtleAdventureGame\<close> declares. The others belong to the base class \<open>Game\<close> of
  \<open>gamelib\<close>, which is not part of the module, and to Tk. Modelled from the spec:
  \<open>elements\<close> is the orchestrator's entity collection, in registration order, and
  \<open>is_running\<close> the flag that the orchestrator's global stop clears. \<open>canvas\<close> holds
  the canvas calls made so far, \<open>timers\<close> the delays of the pending \<open>after\<close>
  callbacks (the only callback the module schedules is \<open>create_enemy\<close>), and
  \<open>winfo_width\<close> is what \<open>canvas.winfo_width()\<close> answers.
\<close>

record game =
  level :: int
  screen_width :: int
  screen_height :: int
  waypoint :: waypoint
  player :: player
  home :: home
  enemies :: "element list"
  enemy_generator :: enemy_generator
  elements :: "element list"
  is_running :: bool
  canvas :: "canvas_call list"
  timers :: "int list"
  winfo_width :: int

subsection \<open>The turtle\<close>

definition xcor :: "turtle \<Rightarrow> real" where
  "xcor t = fst (t_position t)"

definition ycor :: "turtle \<Rightarrow> real" where
  "ycor t = snd (t_position t)"

definition setx :: "real \<Rightarrow> turtle \<Rightarrow> turtle" where
  "setx v t = t\<lparr>t_position := (v, ycor t)\<rparr>"

definition sety :: "real \<Rightarrow> turtle \<Rightarrow> turtle" where
  "sety v t = t\<lparr>t_position := (xcor t, v)\<rparr>"

definition distance :: "turtle \<Rightarrow> real \<Rightarrow> real \<Rightarrow> real" where
  "distance t tx ty = sqrt ((tx - xcor t)\<^sup>2 + (ty - ycor t)\<^sup>2)"

text \<open>
  \<open>towards\<close> answers the angle of the line from the turtle to the target, and
  \<open>setheading\<close> turns the orientation to an angle. The model writes an angle as its
  unit vector \<open>(cos, sin)\<close>; the angle of the null vector is 0 (\<open>atan2(0, 0)\<close>), the
  vector \<open>(1, 0)\<close>.
\<close>

definition towards :: "turtle \<Rightarrow> real \<Rightarrow> real \<Rightarrow> real \<times> real" where
  "towards t tx ty =
     (if distance t tx ty = 0 then (1, 0)
      else ((tx - xcor t) / distance t tx ty, (ty - ycor t) / distance t tx ty))"

definition setheading :: "real \<times> real \<Rightarrow> turtle \<Rightarrow> turtle" where
  "setheading a t = t\<lparr>t_orient := a\<rparr>"

definition forward :: "real \<Rightarrow> turtle \<Rightarrow> turtle" where
  "forward d t =
     t\<lparr>t_position := (xcor t + fst (t_orient t) * d, ycor t + snd (t_orient t) * d)\<rparr>"

definition RawTurtle :: turtle where
  "RawTurtle = \<lparr>t_position = (0, 0), t_orient = (1, 0)\<rparr>"

subsection \<open>Player position, collision tests\<close>

definition player_x :: "game \<Rightarrow> real" where
  "player_x g = xcor (pl_turtle (player g))"

definition player_y :: "game \<Rightarrow> real" where
  "player_y g = ycor (pl_turtle (player g))"

definition set_player_x :: "real \<Rightarrow> game \<Rightarrow> game" where
  "set_player_x v g = g\<lparr>player := (player g)\<lparr>pl_turtle := setx v (pl_turtle (player g))\<rparr>\<rparr>"

definition set_player_y :: "real \<Rightarrow> game \<Rightarrow> game" where
  "set_player_y v g = g\<lparr>player := (player g)\<lparr>pl_turtle := sety v (pl_turtle (player g))\<rparr>\<rparr>"

text \<open>\<open>Home.contains\<close>: both chained comparisons are inclusive.\<close>

definition contains :: "home \<Rightarrow> real \<Rightarrow> real \<Rightarrow> bool" where
  "contains h px py =
     (let x1 = hm_x h - hm_size h / 2; x2 = hm_x h + hm_size h / 2;
          y1 = hm_y h - hm_size h / 2; y2 = hm_y h + hm_size h / 2
      in (x1 \<le> px \<and> px \<le> x2) \<and> (y1 \<le> py \<and> py \<le> y2))"

text \<open>\<open>Enemy.hits_player\<close>: both chained comparisons are strict.\<close>

definition hits_player :: "'a enemy_scheme \<Rightarrow> game \<Rightarrow> bool" where
  "hits_player e g =
     ((enemy_x e - enemy_size e / 2 < player_x g \<and> player_x g < enemy_x e + enemy_size e / 2)
      \<and>
      (enemy_y e - enemy_size e / 2 < player_y g \<and> player_y g < enemy_y e + enemy_size e / 2))"

text \<open>
  The two containments of the specification: a point strictly inside the square with
  the given centre and edge, and a point of the square with its bounds.
\<close>

definition strictly_inside_square :: "real \<Rightarrow> real \<Rightarrow> real \<Rightarrow> real \<Rightarrow> real \<Rightarrow> bool" where
  "strictly_inside_square cx cy edge px py = (\<bar>px - cx\<bar> < edge / 2 \<and> \<bar>py - cy\<bar> < edge / 2)"

definition within_square :: "real \<Rightarrow> real \<Rightarrow> real \<Rightarrow> real \<Rightarrow> real \<Rightarrow> bool" where
  "within_square cx cy edge px py = (\<bar>px - cx\<bar> \<le> edge / 2 \<and> \<bar>py - cy\<bar> \<le> edge / 2)"

section \<open>The operations of the game\<close>

subsection \<open>The base class \<open>Game\<close> and the canvas\<close>

definition canvas_call :: "canvas_call \<Rightarrow> game \<Rightarrow> game" where
  "canvas_call c g = g\<lparr>canvas := canvas g @ [c]\<rparr>"

text \<open>
  Modelled from the spec: \<open>Game.stop\<close> of \<open>gamelib\<close>, which is not part of the module.
  The specification calls it the orchestrator's global stop, triggered by win or loss;
  the model clears the flag of the animation loop. \<open>Game.start\<close> sets it.
\<close>

definition stop :: "game \<Rightarrow> game" where
  "stop g = g\<lparr>is_running := False\<rparr>"

definition start :: "game \<Rightarrow> game" where
  "start g = g\<lparr>is_running := True\<rparr>"

subsection \<open>\<open>create\<close> and \<open>delete\<close> of the elements\<close>

definition Waypoint_create :: "game \<Rightarrow> game" where
  "Waypoint_create g =
     (let i1 = next_id (canvas g); g1 = canvas_call (Create_line ''green'') g;
          i2 = next_id (canvas g1); g2 = canvas_call (Create_line ''green'') g1
      in g2\<lparr>waypoint := (waypoint g2)\<lparr>wp_id1 := Some i1, wp_id2 := Some i2\<rparr>\<rparr>)"

definition Home_create :: "game \<Rightarrow> game" where
  "Home_create g =
     (let i = next_id (canvas g); g1 = canvas_call (Create_rectangle ''brown'') g
      in g1\<lparr>home := (home g1)\<lparr>hm_id := Some i\<rparr>\<rparr>)"

text \<open>\<open>Player.create\<close> replaces the player's turtle by a new one.\<close>

definition Player_create :: "game \<Rightarrow> game" where
  "Player_create g = g\<lparr>player := (player g)\<lparr>pl_turtle := RawTurtle\<rparr>\<rparr>"

definition RandomWalkEnemy_create :: "random_walk_enemy \<Rightarrow> game \<Rightarrow> random_walk_enemy \<times> game" where
  "RandomWalkEnemy_create e g =
     (e\<lparr>rw_id := Some (next_id (canvas g))\<rparr>, canvas_call (Create_oval (rw_color2 e)) g)"

definition ChasingEnemy_create :: "chasing_enemy \<Rightarrow> game \<Rightarrow> chasing_enemy \<times> game" where
  "ChasingEnemy_create e g =
     (e\<lparr>ch_id := Some (next_id (canvas g))\<rparr>, canvas_call (Create_oval (ch_color2 e)) g)"

definition FencingEnemy_create :: "fencing_enemy \<Rightarrow> game \<Rightarrow> fencing_enemy \<times> game" where
  "FencingEnemy_create e g =
     (e\<lparr>fe_id := Some (next_id (canvas g))\<rparr>, canvas_call (Create_oval (fe_color2 e)) g)"

definition DeDestroyerEnemy_create ::
  "de_destroyer_enemy \<Rightarrow> game \<Rightarrow> de_destroyer_enemy \<times> game" where
  "DeDestroyerEnemy_create e g =
     (let i1 = next_id (canvas g); g1 = canvas_call (Create_rectangle (dd_color2 e)) g;
          i2 = next_id (canvas g1); g2 = canvas_call (Create_line ''orange'') g1
      in (e\<lparr>dd_id := Some i1, dd_id2 := Some i2\<rparr>, g2))"

definition Bomb_create :: "bomb \<Rightarrow> game \<Rightarrow> bomb \<times> game" where
  "Bomb_create b g =
     (b\<lparr>bomb_id := Some (next_id (canvas g))\<rparr>, canvas_call (Create_oval ''grey'') g)"

text \<open>\<open>Bomb.delete\<close> deletes the bomb's canvas item, and nothing else.\<close>

definition Bomb_delete :: "bomb \<Rightarrow> game \<Rightarrow> game" where
  "Bomb_delete b g = canvas_call (Delete (bomb_id b)) g"

fun create :: "element \<Rightarrow> game \<Rightarrow> element \<times> game" where
  "create EWaypoint g = (EWaypoint, Waypoint_create g)"
| "create EHome g = (EHome, Home_create g)"
| "create EPlayer g = (EPlayer, Player_create g)"
| "create (ERandomWalk e) g = (case RandomWalkEnemy_create e g of (e', g') \<Rightarrow> (ERandomWalk e', g'))"
| "create (EChasing e) g = (case ChasingEnemy_create e g of (e', g') \<Rightarrow> (EChasing e', g'))"
| "create (EFencing e) g = (case FencingEnemy_create e g of (e', g') \<Rightarrow> (EFencing e', g'))"
| "create (EDeDestroyer e) g =
     (case DeDestroyerEnemy_create e g of (e', g') \<Rightarrow> (EDeDestroyer e', g'))"
| "create (EBomb b) g = (case Bomb_create b g of (b', g') \<Rightarrow> (EBomb b', g'))"

text \<open>
  Modelled from the spec: \<open>Game.add_element\<close> of \<open>gamelib\<close>, which is not part of the
  module. The specification has a new element registered with the orchestrator, whose
  collection is kept in registration order, and has \<open>create\<close> allocate the element's
  visual representation when it is spawned.
\<close>

definition add_element :: "element \<Rightarrow> game \<Rightarrow> game" where
  "add_element e g = (case create e g of (e', g') \<Rightarrow> g'\<lparr>elements := elements g' @ [e']\<rparr>)"

subsection \<open>\<open>TurtleAdventureGame\<close>: the notifications\<close>

definition add_enemy :: "element \<Rightarrow> game \<Rightarrow> game" where
  "add_enemy e g = add_element e (g\<lparr>enemies := enemies g @ [e]\<rparr>)"

definition game_over_win :: "game \<Rightarrow> game" where
  "game_over_win g =
     canvas_call
       (Create_text (real_of_int (screen_width g) / 2) (real_of_int (screen_height g) / 2)
          ''You Win'' ''green'')
       (stop g)"

definition game_over_lose :: "game \<Rightarrow> game" where
  "game_over_lose g =
     canvas_call
       (Create_text (real_of_int (screen_width g) / 2) (real_of_int (screen_height g) / 2)
          ''You Lose'' ''red'')
       (stop g)"

subsection \<open>\<open>Waypoint\<close>, \<open>Home\<close>, \<open>Player\<close>\<close>

text \<open>
  A new element stands at the origin until its coordinates are assigned. Identifiers
  are unset (\<open>None\<close>) until \<open>create\<close>.
\<close>

definition Waypoint_init :: waypoint where
  "Waypoint_init = \<lparr>wp_id1 = None, wp_id2 = None, wp_active = False, wp_x = 0, wp_y = 0\<rparr>"

definition activate :: "real \<Rightarrow> real \<Rightarrow> game \<Rightarrow> game" where
  "activate ax ay g = g\<lparr>waypoint := (waypoint g)\<lparr>wp_active := True, wp_x := ax, wp_y := ay\<rparr>\<rparr>"

definition deactivate :: "game \<Rightarrow> game" where
  "deactivate g = g\<lparr>waypoint := (waypoint g)\<lparr>wp_active := False\<rparr>\<rparr>"

definition Home_init :: "real \<times> real \<Rightarrow> real \<Rightarrow> home" where
  "Home_init pos sz = \<lparr>hm_id = None, hm_size = sz, hm_x = fst pos, hm_y = snd pos\<rparr>"

definition Player_init :: "turtle \<Rightarrow> real \<Rightarrow> player" where
  "Player_init t speed = \<lparr>pl_speed = speed, pl_turtle = t\<rparr>"

definition Player_update :: "game \<Rightarrow> game" where
  "Player_update g0 =
     (let g = (if contains (home g0) (player_x g0) (player_y g0) then game_over_win g0 else g0);
          t = pl_turtle (player g)
      in if wp_active (waypoint g) then
           (let t1 = setheading (towards t (wp_x (waypoint g)) (wp_y (waypoint g))) t;
                t2 = forward (pl_speed (player g)) t1;
                g1 = g\<lparr>player := (player g)\<lparr>pl_turtle := t2\<rparr>\<rparr>
            in if distance t2 (wp_x (waypoint g1)) (wp_y (waypoint g1)) < pl_speed (player g1)
               then deactivate g1 else g1)
         else g)"

subsection \<open>\<open>Enemy\<close>\<close>

text \<open>
  \<open>Enemy.__init__\<close> stores the size and the colour it is given. The constructors of
  the subclasses call it first; in the model each of them writes the four fields of the
  base class itself, and \<open>enemy.truncate\<close> reads them back.
\<close>

definition Enemy_init :: "real \<Rightarrow> string \<Rightarrow> enemy" where
  "Enemy_init sz col = \<lparr>enemy_x = 0, enemy_y = 0, enemy_size = sz, enemy_color = col\<rparr>"

subsection \<open>\<open>RandomWalkEnemy\<close>\<close>

definition RandomWalkEnemy_init :: "real \<Rightarrow> string \<Rightarrow> int \<Rightarrow> random_walk_enemy" where
  "RandomWalkEnemy_init sz col speed =
     \<lparr>enemy_x = 0, enemy_y = 0, enemy_size = sz, enemy_color = col,
      rw_id = None, rw_color2 = col, rw_state = Walk_right, rw_speed = speed\<rparr>"

definition RandomWalkEnemy_left :: "nat \<Rightarrow> random_walk_enemy \<Rightarrow> error + random_walk_enemy" where
  "RandomWalkEnemy_left u e =
     (if enemy_x e < 0 then Inr (e\<lparr>rw_state := Walk_right\<rparr>)
      else case randint (- rw_speed e) (rw_speed e - 4 + 1) u of
             Inl err \<Rightarrow> Inl err
           | Inr r \<Rightarrow> Inr (e\<lparr>enemy_x := enemy_x e + real_of_int r\<rparr>))"

definition RandomWalkEnemy_right ::
  "nat \<Rightarrow> random_walk_enemy \<Rightarrow> game \<Rightarrow> error + random_walk_enemy" where
  "RandomWalkEnemy_right u e g =
     (if enemy_x e > real_of_int (winfo_width g) then Inr (e\<lparr>rw_state := Walk_left\<rparr>)
      else case randint (- rw_speed e + 4) (rw_speed e + 1) u of
             Inl err \<Rightarrow> Inl err
           | Inr r \<Rightarrow> Inr (e\<lparr>enemy_x := enemy_x e + real_of_int r\<rparr>))"

definition RandomWalkEnemy_state ::
  "nat \<Rightarrow> random_walk_enemy \<Rightarrow> game \<Rightarrow> error + random_walk_enemy" where
  "RandomWalkEnemy_state u e g =
     (case rw_state e of
        Walk_left \<Rightarrow> RandomWalkEnemy_left u e
      | Walk_right \<Rightarrow> RandomWalkEnemy_right u e g)"

definition RandomWalkEnemy_update ::
  "nat \<Rightarrow> random_walk_enemy \<Rightarrow> game \<Rightarrow> error + random_walk_enemy \<times> game" where
  "RandomWalkEnemy_update u e g =
     (case RandomWalkEnemy_state u e g of
        Inl err \<Rightarrow> Inl err
      | Inr e' \<Rightarrow> Inr (e', if hits_player e' g then game_over_lose g else g))"

subsection \<open>\<open>ChasingEnemy\<close>\<close>

definition ChasingEnemy_init :: "real \<Rightarrow> string \<Rightarrow> int \<Rightarrow> chasing_enemy" where
  "ChasingEnemy_init sz col speed =
     \<lparr>enemy_x = 0, enemy_y = 0, enemy_size = sz, enemy_color = col,
      ch_id = None, ch_color2 = col, ch_xstate = Chase_right, ch_ystate = Chase_up,
      ch_speed = real_of_int speed / 3\<rparr>"

definition ChasingEnemy_left :: "chasing_enemy \<Rightarrow> game \<Rightarrow> chasing_enemy" where
  "ChasingEnemy_left e g =
     (if enemy_x e < player_x g then e\<lparr>ch_xstate := Chase_right\<rparr>
      else e\<lparr>enemy_x := enemy_x e + - ch_speed e\<rparr>)"

definition ChasingEnemy_right :: "chasing_enemy \<Rightarrow> game \<Rightarrow> chasing_enemy" where
  "ChasingEnemy_right e g =
     (if enemy_x e > player_x g then e\<lparr>ch_xstate := Chase_left\<rparr>
      else e\<lparr>enemy_x := enemy_x e + ch_speed e\<rparr>)"

definition ChasingEnemy_up :: "chasing_enemy \<Rightarrow> game \<Rightarrow> chasing_enemy" where
  "ChasingEnemy_up e g =
     (if enemy_y e < player_y g then e\<lparr>ch_ystate := Chase_down\<rparr>
      else e\<lparr>enemy_y := enemy_y e + - ch_speed e\<rparr>)"

definition ChasingEnemy_down :: "chasing_enemy \<Rightarrow> game \<Rightarrow> chasing_enemy" where
  "ChasingEnemy_down e g =
     (if enemy_y e > player_y g then e\<lparr>ch_ystate := Chase_up\<rparr>
      else e\<lparr>enemy_y := enemy_y e + ch_speed e\<rparr>)"

definition ChasingEnemy_xstate :: "chasing_enemy \<Rightarrow> game \<Rightarrow> chasing_enemy" where
  "ChasingEnemy_xstate e g =
     (case ch_xstate e of Chase_left \<Rightarrow> ChasingEnemy_left e g | Chase_right \<Rightarrow> ChasingEnemy_right e g)"

definition ChasingEnemy_ystate :: "chasing_enemy \<Rightarrow> game \<Rightarrow> chasing_enemy" where
  "ChasingEnemy_ystate e g =
     (case ch_ystate e of Chase_up \<Rightarrow> ChasingEnemy_up e g | Chase_down \<Rightarrow> ChasingEnemy_down e g)"

definition ChasingEnemy_update :: "chasing_enemy \<Rightarrow> game \<Rightarrow> chasing_enemy \<times> game" where
  "ChasingEnemy_update e g =
     (let e1 = ChasingEnemy_xstate e g; e2 = ChasingEnemy_ystate e1 g
      in (e2, if hits_player e2 g then game_over_lose g else g))"

subsection \<open>\<open>FencingEnemy\<close>\<close>

definition FencingEnemy_init :: "game \<Rightarrow> real \<Rightarrow> string \<Rightarrow> int \<Rightarrow> fencing_enemy" where
  "FencingEnemy_init g sz col speed =
     \<lparr>enemy_x = 0, enemy_y = 0, enemy_size = sz, enemy_color = col,
      fe_id = None, fe_color2 = col, fe_state = Fence_down,
      fe_speed = real_of_int speed / 4,
      home_top = hm_y (home g) - (hm_size (home g) / 2) - 20,
      home_bottom = hm_y (home g) + (hm_size (home g) / 2) + 20,
      home_left = hm_x (home g) - (hm_size (home g) / 2) - 20,
      home_right = hm_x (home g) + (hm_size (home g) / 2) + 20\<rparr>"

definition FencingEnemy_down :: "fencing_enemy \<Rightarrow> fencing_enemy" where
  "FencingEnemy_down e =
     (if enemy_y e \<ge> home_bottom e then e\<lparr>fe_state := Fence_right\<rparr>
      else e\<lparr>enemy_y := enemy_y e + fe_speed e\<rparr>)"

definition FencingEnemy_right :: "fencing_enemy \<Rightarrow> fencing_enemy" where
  "FencingEnemy_right e =
     (if enemy_x e \<ge> home_right e then e\<lparr>fe_state := Fence_up\<rparr>
      else e\<lparr>enemy_x := enemy_x e + fe_speed e\<rparr>)"

definition FencingEnemy_up :: "fencing_enemy \<Rightarrow> fencing_enemy" where
  "FencingEnemy_up e =
     (if enemy_y e \<le> home_top e then e\<lparr>fe_state := Fence_left\<rparr>
      else e\<lparr>enemy_y := enemy_y e + - fe_speed e\<rparr>)"

definition FencingEnemy_left :: "fencing_enemy \<Rightarrow> fencing_enemy" where
  "FencingEnemy_left e =
     (if enemy_x e \<le> home_left e then e\<lparr>fe_state := Fence_down\<rparr>
      else e\<lparr>enemy_x := enemy_x e + - fe_speed e\<rparr>)"

definition FencingEnemy_state :: "fencing_enemy \<Rightarrow> fencing_enemy" where
  "FencingEnemy_state e =
     (case fe_state e of
        Fence_down \<Rightarrow> FencingEnemy_down e
      | Fence_right \<Rightarrow> FencingEnemy_right e
      | Fence_up \<Rightarrow> FencingEnemy_up e
      | Fence_left \<Rightarrow> FencingEnemy_left e)"

definition FencingEnemy_update :: "fencing_enemy \<Rightarrow> game \<Rightarrow> fencing_enemy \<times> game" where
  "FencingEnemy_update e g =
     (let e1 = FencingEnemy_state e
      in (e1, if hits_player e1 g then game_over_lose g else g))"

subsection \<open>\<open>Bomb\<close> and \<open>DeDestroyerEnemy\<close>\<close>

definition Bomb_init :: "real \<Rightarrow> bomb" where
  "Bomb_init sz =
     \<lparr>enemy_x = 0, enemy_y = 0, enemy_size = sz, enemy_color = ''grey'',
      bomb_id = None, bomb_timer = 0\<rparr>"

definition Bomb_update :: "bomb \<Rightarrow> game \<Rightarrow> bomb \<times> game" where
  "Bomb_update b g =
     (let b1 = b\<lparr>bomb_timer := bomb_timer b + 1\<rparr>;
          g1 = (if bomb_timer b1 \<ge> 20 then
                  (let g' = canvas_call (Itemconfigure (bomb_id b1) ''red'') g
                   in if hits_player b1 g' then game_over_lose g' else g')
                else g);
          g2 = (if bomb_timer b1 \<ge> 21 then Bomb_delete b1 g1 else g1)
      in (b1, g2))"

definition DeDestroyerEnemy_init :: "real \<Rightarrow> string \<Rightarrow> int \<Rightarrow> de_destroyer_enemy" where
  "DeDestroyerEnemy_init sz col speed =
     \<lparr>enemy_x = 0, enemy_y = 0, enemy_size = sz, enemy_color = col,
      dd_id = None, dd_id2 = None, dd_id3 = None, dd_color2 = col, dd_timer = 0,
      distance_barrel = 50\<rparr>"

definition DeDestroyerEnemy_update ::
  "nat \<Rightarrow> nat \<Rightarrow> de_destroyer_enemy \<Rightarrow> game \<Rightarrow> error + de_destroyer_enemy \<times> game" where
  "DeDestroyerEnemy_update u1 u2 e g =
     (let e1 = e\<lparr>dd_timer := dd_timer e + 1\<rparr>
      in if dd_timer e1 mod 20 = 0 then
           (let b = Bomb_init (real_of_int (level g * 30))
            in case randint (- 50) 51 u1 of
                 Inl err \<Rightarrow> Inl err
               | Inr r1 \<Rightarrow>
                   (case randint (- 50) 51 u2 of
                      Inl err \<Rightarrow> Inl err
                    | Inr r2 \<Rightarrow>
                        Inr (e1,
                             add_element
                               (EBomb (b\<lparr>enemy_x := player_x g + real_of_int r1,
                                         enemy_y := player_y g + real_of_int r2\<rparr>))
                               g)))
         else Inr (e1, g))"

subsection \<open>\<open>EnemyGenerator\<close>\<close>

datatype enemy_kind = RandomWalkEnemy | ChasingEnemy | FencingEnemy | DeDestroyerEnemy

text \<open>
  Tk's \<open>after(delay, callback)\<close>: the delay of the pending callback is appended to
  \<open>timers\<close>. \<open>int(4000 / level)\<close> is Python's true division followed by truncation
  towards zero; for the integers at hand the float quotient truncates to the same
  integer as the exact one.
\<close>

definition after :: "int \<Rightarrow> game \<Rightarrow> game" where
  "after delay g = g\<lparr>timers := timers g @ [delay]\<rparr>"

definition int_truediv :: "int \<Rightarrow> int \<Rightarrow> error + int" where
  "int_truediv a b =
     (if b = 0 then Inl ZeroDivisionError else Inr (sgn a * sgn b * (\<bar>a\<bar> div \<bar>b\<bar>)))"

definition EnemyGenerator_init :: "int \<Rightarrow> game \<Rightarrow> game" where
  "EnemyGenerator_init lvl g =
     (after 100 g)\<lparr>enemy_generator := \<lparr>gen_level = lvl, gen_speed = lvl * 3\<rparr>\<rparr>"

definition enemy_dict :: "(enemy_kind \<times> string \<times> string) list" where
  "enemy_dict =
     [(RandomWalkEnemy, ''random'', ''purple''),
      (ChasingEnemy, ''random'', ''red''),
      (FencingEnemy, ''home'', ''green''),
      (DeDestroyerEnemy, ''random'', ''black'')]"

text \<open>The call \<open>random_enemy(game, size, color, speed)\<close> of the chosen class.\<close>

fun new_enemy :: "enemy_kind \<Rightarrow> game \<Rightarrow> real \<Rightarrow> string \<Rightarrow> int \<Rightarrow> element" where
  "new_enemy RandomWalkEnemy g sz col speed = ERandomWalk (RandomWalkEnemy_init sz col speed)"
| "new_enemy ChasingEnemy g sz col speed = EChasing (ChasingEnemy_init sz col speed)"
| "new_enemy FencingEnemy g sz col speed = EFencing (FencingEnemy_init g sz col speed)"
| "new_enemy DeDestroyerEnemy g sz col speed = EDeDestroyer (DeDestroyerEnemy_init sz col speed)"

text \<open>An element's x-coordinate; the assignments \<open>enemy.x = v\<close> and \<open>enemy.y = v\<close>.\<close>

fun element_x :: "element \<Rightarrow> game \<Rightarrow> real" where
  "element_x EWaypoint g = wp_x (waypoint g)"
| "element_x EHome g = hm_x (home g)"
| "element_x EPlayer g = player_x g"
| "element_x (ERandomWalk e) g = enemy_x e"
| "element_x (EChasing e) g = enemy_x e"
| "element_x (EFencing e) g = enemy_x e"
| "element_x (EDeDestroyer e) g = enemy_x e"
| "element_x (EBomb e) g = enemy_x e"

fun set_enemy_x :: "real \<Rightarrow> element \<Rightarrow> element" where
  "set_enemy_x v (ERandomWalk e) = ERandomWalk (e\<lparr>enemy_x := v\<rparr>)"
| "set_enemy_x v (EChasing e) = EChasing (e\<lparr>enemy_x := v\<rparr>)"
| "set_enemy_x v (EFencing e) = EFencing (e\<lparr>enemy_x := v\<rparr>)"
| "set_enemy_x v (EDeDestroyer e) = EDeDestroyer (e\<lparr>enemy_x := v\<rparr>)"
| "set_enemy_x v (EBomb e) = EBomb (e\<lparr>enemy_x := v\<rparr>)"
| "set_enemy_x v el = el"

fun set_enemy_y :: "real \<Rightarrow> element \<Rightarrow> element" where
  "set_enemy_y v (ERandomWalk e) = ERandomWalk (e\<lparr>enemy_y := v\<rparr>)"
| "set_enemy_y v (EChasing e) = EChasing (e\<lparr>enemy_y := v\<rparr>)"
| "set_enemy_y v (EFencing e) = EFencing (e\<lparr>enemy_y := v\<rparr>)"
| "set_enemy_y v (EDeDestroyer e) = EDeDestroyer (e\<lparr>enemy_y := v\<rparr>)"
| "set_enemy_y v (EBomb e) = EBomb (e\<lparr>enemy_y := v\<rparr>)"
| "set_enemy_y v el = el"

text \<open>
  The loop \<open>while 40 < enemy.x < 60: enemy.x = random.randint(0, screen_width)\<close>. Each
  round takes the generator's next output from the list; \<open>None\<close> says that the loop has
  not ended when the list is used up.
\<close>

fun reroll :: "int \<Rightarrow> int \<Rightarrow> nat list \<Rightarrow> (error + int) option" where
  "reroll w ex [] = (if 40 < ex \<and> ex < 60 then None else Some (Inr ex))"
| "reroll w ex (u # us) =
     (if 40 < ex \<and> ex < 60 then
        (case randint 0 w u of Inl err \<Rightarrow> Some (Inl err) | Inr ex' \<Rightarrow> reroll w ex' us)
      else Some (Inr ex))"

text \<open>
  The last two statements of \<open>create_enemy\<close>. An exception leaves the game as it is
  when it is raised: the result pairs the exception, if any, with the game.
\<close>

definition register_and_reschedule :: "element \<Rightarrow> game \<Rightarrow> error option \<times> game" where
  "register_and_reschedule e g =
     (let g1 = add_element e g
      in case int_truediv 4000 (level g1) of
           Inl err \<Rightarrow> (Some err, g1)
         | Inr delay \<Rightarrow> (None, after delay g1))"

definition create_enemy ::
  "nat \<Rightarrow> nat \<Rightarrow> nat \<Rightarrow> nat list \<Rightarrow> game \<Rightarrow> (error option \<times> game) option" where
  "create_enemy uk ux uy us g =
     (case choice enemy_dict uk of
        (random_enemy, position, col) \<Rightarrow>
          (let e = new_enemy random_enemy g 20 col (gen_speed (enemy_generator g))
           in if position = ''home'' then
                Some (register_and_reschedule
                        (set_enemy_y (hm_y (home g) - (hm_size (home g) / 2) - 20)
                           (set_enemy_x (hm_x (home g) - (hm_size (home g) / 2) - 20) e))
                        g)
              else
                (case randint 0 (screen_width g) ux of
                   Inl err \<Rightarrow> Some (Some err, g)
                 | Inr ex \<Rightarrow>
                     (case randint 0 (screen_height g) uy of
                        Inl err \<Rightarrow> Some (Some err, g)
                      | Inr ey \<Rightarrow>
                          (case reroll (screen_width g) ex us of
                             None \<Rightarrow> None
                           | Some (Inl err) \<Rightarrow> Some (Some err, g)
                           | Some (Inr ex') \<Rightarrow>
                               Some (register_and_reschedule
                                       (set_enemy_y (real_of_int ey)
                                          (set_enemy_x (real_of_int ex') e))
                                       g))))))"

subsection \<open>\<open>TurtleAdventureGame\<close>: construction\<close>

text \<open>
  \<open>__init__\<close> assigns the level, the screen dimensions and the empty list \<open>enemies\<close>,
  and only declares the other attributes; \<open>init_game\<close> assigns them. The record needs a
  value for every field, so the constructor's result holds an inactive waypoint, a home
  of size 0, a player at the origin and a generator, all replaced by \<open>init_game\<close>. The
  base class starts with no element, no canvas call and no pending callback, and is not
  running.
\<close>

definition TurtleAdventureGame_init :: "int \<Rightarrow> int \<Rightarrow> int \<Rightarrow> game" where
  "TurtleAdventureGame_init w h lvl =
     \<lparr>level = lvl, screen_width = w, screen_height = h,
      waypoint = Waypoint_init, player = Player_init RawTurtle 5, home = Home_init (0, 0) 0,
      enemies = [], enemy_generator = \<lparr>gen_level = lvl, gen_speed = lvl * 3\<rparr>,
      elements = [], is_running = False, canvas = [], timers = [], winfo_width = w\<rparr>"

definition init_game :: "game \<Rightarrow> game" where
  "init_game g0 =
     (let g1 = add_element EWaypoint (g0\<lparr>waypoint := Waypoint_init\<rparr>);
          g2 = add_element EHome
                 (g1\<lparr>home := Home_init (real_of_int (screen_width g1 - 100),
                                        real_of_int (screen_height g1 div 2)) 20\<rparr>);
          g3 = add_element EPlayer (g2\<lparr>player := Player_init RawTurtle 5\<rparr>);
          g4 = EnemyGenerator_init (level g3) g3;
          g5 = set_player_x 50 g4
      in set_player_y (real_of_int (screen_height g5 div 2)) g5)"

subsection \<open>One \<open>update\<close> call of the orchestrator\<close>

text \<open>
  The orchestrator calls \<open>update\<close> on a registered element; the element is the object
  at index \<open>i\<close> of the collection, and what the call changes of it is stored there.
  \<open>Waypoint.update\<close> and \<open>Home.update\<close> do nothing. An exception leaves the game as
  it is.
\<close>

definition update_element :: "nat \<Rightarrow> nat \<Rightarrow> nat \<Rightarrow> game \<Rightarrow> error option \<times> game" where
  "update_element u1 u2 i g =
     (case elements g ! i of
        EWaypoint \<Rightarrow> (None, g)
      | EHome \<Rightarrow> (None, g)
      | EPlayer \<Rightarrow> (None, Player_update g)
      | ERandomWalk e \<Rightarrow>
          (case RandomWalkEnemy_update u1 e g of
             Inl err \<Rightarrow> (Some err, g)
           | Inr (e', g') \<Rightarrow> (None, g'\<lparr>elements := (elements g')[i := ERandomWalk e']\<rparr>))
      | EChasing e \<Rightarrow>
          (case ChasingEnemy_update e g of
             (e', g') \<Rightarrow> (None, g'\<lparr>elements := (elements g')[i := EChasing e']\<rparr>))
      | EFencing e \<Rightarrow>
          (case FencingEnemy_update e g of
             (e', g') \<Rightarrow> (None, g'\<lparr>elements := (elements g')[i := EFencing e']\<rparr>))
      | EDeDestroyer e \<Rightarrow>
          (case DeDestroyerEnemy_update u1 u2 e g of
             Inl err \<Rightarrow> (Some err, g)
           | Inr (e', g') \<Rightarrow> (None, g'\<lparr>elements := (elements g')[i := EDeDestroyer e']\<rparr>))
      | EBomb b \<Rightarrow>
          (case Bomb_update b g of
             (b', g') \<Rightarrow> (None, g'\<lparr>elements := (elements g')[i := EBomb b']\<rparr>)))"

text \<open>
  The states a game can be in: the constructed and initialised game, and from there
  any sequence of a start, a pointer click (the waypoint's activation), an \<open>update\<close> of
  a registered element, and a firing of the pending \<open>create_enemy\<close> callback. The order
  and the number of the \<open>update\<close> calls are left open, so the states include those of
  every schedule of the orchestrator.
\<close>

inductive reachable :: "game \<Rightarrow> bool" where
  reachable_init: "reachable (init_game (TurtleAdventureGame_init w h lvl))"
| reachable_start: "reachable g \<Longrightarrow> reachable (start g)"
| reachable_click: "reachable g \<Longrightarrow> reachable (activate ax ay g)"
| reachable_update:
    "reachable g \<Longrightarrow> i < length (elements g) \<Longrightarrow> update_element u1 u2 i g = (err, g')
      \<Longrightarrow> reachable g'"
| reachable_fire:
    "reachable g \<Longrightarrow> timers g = d # ds \<Longrightarrow>
      create_enemy uk ux uy us (g\<lparr>timers := ds\<rparr>) = Some (err, g') \<Longrightarrow> reachable g'"

subsection \<open>Notions of the specification\<close>

text \<open>The attributes of a game that its configuration consists of, compared.\<close>

abbreviation same_configuration :: "game \<Rightarrow> game \<Rightarrow> bool" where
  "same_configuration g' g \<equiv>
     enemies g' = enemies g \<and> level g' = level g \<and> hm_size (home g') = hm_size (home g)
     \<and> enemy_generator g' = enemy_generator g"

text \<open>The successor of a patroller's state in the cycle down, right, up, left, down.\<close>

fun next_fence_state :: "fence_state \<Rightarrow> fence_state" where
  "next_fence_state Fence_down = Fence_right"
| "next_fence_state Fence_right = Fence_up"
| "next_fence_state Fence_up = Fence_left"
| "next_fence_state Fence_left = Fence_down"

text \<open>
  The approaching half of a chaser's state on an axis: the chaser is on the side of the
  player that its state moves away from, so that the step brings it towards the player.
\<close>

definition approaching_x :: "chasing_enemy \<Rightarrow> game \<Rightarrow> bool" where
  "approaching_x e g =
     (case ch_xstate e of
        Chase_left \<Rightarrow> player_x g \<le> enemy_x e
      | Chase_right \<Rightarrow> enemy_x e \<le> player_x g)"

definition approaching_y :: "chasing_enemy \<Rightarrow> game \<Rightarrow> bool" where
  "approaching_y e g =
     (case ch_ystate e of
        Chase_up \<Rightarrow> player_y g \<le> enemy_y e
      | Chase_down \<Rightarrow> enemy_y e \<le> player_y g)"

text \<open>
  A number of \<open>update\<close> calls of the orchestrator on the element at an index, the
  generator's output being 0 each time.
\<close>

primrec repeat_update :: "nat \<Rightarrow> nat \<Rightarrow> game \<Rightarrow> game" where
  "repeat_update 0 i g = g"
| "repeat_update (Suc n) i g = snd (update_element 0 0 i (repeat_update n i g))"

text \<open>A chaser after a number of \<open>update\<close> calls, the player standing still meanwhile.\<close>

primrec ChasingEnemy_updates :: "nat \<Rightarrow> chasing_enemy \<Rightarrow> game \<Rightarrow> chasing_enemy" where
  "ChasingEnemy_updates 0 e g = e"
| "ChasingEnemy_updates (Suc n) e g = fst (ChasingEnemy_update (ChasingEnemy_updates n e g) g)"

section \<open>Collision tests\<close>

lemma open_interval_abs:
  "((cx::real) - s / 2 < p \<and> p < cx + s / 2) = (\<bar>p - cx\<bar> < s / 2)"
  by linarith

lemma closed_interval_abs:
  "((cx::real) - s / 2 \<le> p \<and> p \<le> cx + s / 2) = (\<bar>p - cx\<bar> \<le> s / 2)"
  by linarith

text \<open>
  C3. For every enemy position and size and every player position, \<open>hits_player\<close> is
  true if and only if the player's point lies strictly inside the axis-aligned square
  centred at the enemy's position with edge length equal to the enemy's size, each axis
  tested on its own with the half-edge margin; \<open>Home.contains\<close> is true if and only if
  the point lies in Home's square with its bounds included.
\<close>

theorem hits_player_strict_contains_inclusive:
  "hits_player e g
     = strictly_inside_square (enemy_x e) (enemy_y e) (enemy_size e) (player_x g) (player_y g)
   \<and> contains h px py = within_square (hm_x h) (hm_y h) (hm_size h) px py
   \<and> contains h px py
     = (px \<in> {hm_x h - hm_size h / 2 .. hm_x h + hm_size h / 2}
        \<and> py \<in> {hm_y h - hm_size h / 2 .. hm_y h + hm_size h / 2})
   \<and> hits_player e g
     = (player_x g \<in> {enemy_x e - enemy_size e / 2 <..< enemy_x e + enemy_size e / 2}
        \<and> player_y g \<in> {enemy_y e - enemy_size e / 2 <..< enemy_y e + enemy_size e / 2})"
  unfolding hits_player_def contains_def strictly_inside_square_def within_square_def Let_def
  by (simp only: open_interval_abs closed_interval_abs greaterThanLessThan_iff
        atLeastAtMost_iff simp_thms)

section \<open>The constructed game\<close>

text \<open>The game after \<open>__init__\<close> and \<open>init_game\<close>, field by field.\<close>

lemma init_game_eq:
  "init_game (TurtleAdventureGame_init w h lvl) =
     \<lparr>level = lvl, screen_width = w, screen_height = h,
      waypoint = \<lparr>wp_id1 = Some 1, wp_id2 = Some 2, wp_active = False, wp_x = 0, wp_y = 0\<rparr>,
      player = \<lparr>pl_speed = 5,
                pl_turtle = \<lparr>t_position = (50, real_of_int (h div 2)), t_orient = (1, 0)\<rparr>\<rparr>,
      home = \<lparr>hm_id = Some 3, hm_size = 20, hm_x = real_of_int (w - 100),
              hm_y = real_of_int (h div 2)\<rparr>,
      enemies = [], enemy_generator = \<lparr>gen_level = lvl, gen_speed = lvl * 3\<rparr>,
      elements = [EWaypoint, EHome, EPlayer], is_running = False,
      canvas = [Create_line ''green'', Create_line ''green'', Create_rectangle ''brown''],
      timers = [100], winfo_width = w\<rparr>"
  by (simp add: init_game_def TurtleAdventureGame_init_def Let_def add_element_def
        Waypoint_create_def Home_create_def Player_create_def canvas_call_def next_id_def
        Waypoint_init_def Home_init_def Player_init_def RawTurtle_def EnemyGenerator_init_def
        after_def set_player_x_def set_player_y_def setx_def sety_def xcor_def ycor_def)

section \<open>The bomb\<close>

text \<open>
  C1, amended. A new bomb's counter is 0 and every \<open>update\<close> adds 1 to it, so the tick
  of an \<open>update\<close> call is the value the call gives the counter. In a tick below 20 the
  call changes nothing but the counter, whatever the player's position. In tick 20 the
  bomb turns red and tests the player once: the game is stopped with the losing banner
  if and only if the player is strictly inside the bomb's box. In tick 21 the bomb tests
  the player once more, in the same way, and then calls its \<open>delete\<close>, hit or not,
  which deletes its canvas item.
\<close>

theorem bomb_update_phases:
  "bomb_timer (Bomb_init sz) = 0
   \<and> fst (Bomb_update b g) = b\<lparr>bomb_timer := bomb_timer b + 1\<rparr>
   \<and> (bomb_timer (fst (Bomb_update b g)) < 20 \<longrightarrow> snd (Bomb_update b g) = g)
   \<and> (bomb_timer (fst (Bomb_update b g)) = 20 \<longrightarrow>
        is_running (snd (Bomb_update b g)) = (is_running g \<and> \<not> hits_player b g)
        \<and> canvas (snd (Bomb_update b g))
          = canvas g @ Itemconfigure (bomb_id b) ''red''
              # (if hits_player b g
                 then [Create_text (real_of_int (screen_width g) / 2)
                         (real_of_int (screen_height g) / 2) ''You Lose'' ''red'']
                 else []))
   \<and> (bomb_timer (fst (Bomb_update b g)) = 21 \<longrightarrow>
        is_running (snd (Bomb_update b g)) = (is_running g \<and> \<not> hits_player b g)
        \<and> canvas (snd (Bomb_update b g))
          = canvas g @ Itemconfigure (bomb_id b) ''red''
              # (if hits_player b g
                 then [Create_text (real_of_int (screen_width g) / 2)
                         (real_of_int (screen_height g) / 2) ''You Lose'' ''red'']
                 else [])
              @ [Delete (bomb_id b)])"
  by (simp add: Bomb_init_def Bomb_update_def Let_def Bomb_delete_def canvas_call_def
        game_over_lose_def stop_def hits_player_def player_x_def player_y_def)

text \<open>
  The 21st update of a bomb of size 30 at (300, 250), in a running game of level 1 on
  an 800 by 500 screen whose player stands at (50, 250), outside the bomb's box.
\<close>

theorem bomb_update_phases_witness:
  "bomb_timer (fst (Bomb_update ((Bomb_init 30)\<lparr>enemy_x := 300, enemy_y := 250, bomb_timer := 20\<rparr>)
                      (start (init_game (TurtleAdventureGame_init 800 500 1))))) = 21
   \<and> is_running (snd (Bomb_update ((Bomb_init 30)\<lparr>enemy_x := 300, enemy_y := 250, bomb_timer := 20\<rparr>)
                      (start (init_game (TurtleAdventureGame_init 800 500 1)))))
   \<and> canvas (snd (Bomb_update ((Bomb_init 30)\<lparr>enemy_x := 300, enemy_y := 250, bomb_timer := 20\<rparr>)
                      (start (init_game (TurtleAdventureGame_init 800 500 1)))))
      = [Create_line ''green'', Create_line ''green'', Create_rectangle ''brown'',
         Itemconfigure None ''red'', Delete None]"
  using bomb_update_phases
    [of 30 "(Bomb_init 30)\<lparr>enemy_x := 300, enemy_y := 250, bomb_timer := 20\<rparr>"
        "start (init_game (TurtleAdventureGame_init 800 500 1))"]
  by (simp add: init_game_eq start_def Bomb_init_def hits_player_def player_x_def player_y_def
        xcor_def ycor_def)

lemma bomb_dormant_update:
  "i < length (elements g) \<Longrightarrow> elements g ! i = EBomb b \<Longrightarrow> bomb_timer b + 1 < 20
    \<Longrightarrow> snd (update_element u1 u2 i g)
        = g\<lparr>elements := (elements g)[i := EBomb (b\<lparr>bomb_timer := bomb_timer b + 1\<rparr>)]\<rparr>"
  by (simp add: update_element_def Bomb_update_def Let_def)

lemma bomb_dormant_run:
  "i < length (elements g) \<Longrightarrow> elements g ! i = EBomb b \<Longrightarrow> bomb_timer b + int n < 20
    \<Longrightarrow> repeat_update n i g
        = g\<lparr>elements := (elements g)[i := EBomb (b\<lparr>bomb_timer := bomb_timer b + int n\<rparr>)]\<rparr>"
proof (induction n)
  case 0
  then have "(elements g)[i := EBomb b] = elements g"
    using list_update_id [of "elements g" i] by simp
  then show ?case by simp
next
  case (Suc n)
  then have ih: "repeat_update n i g
        = g\<lparr>elements := (elements g)[i := EBomb (b\<lparr>bomb_timer := bomb_timer b + int n\<rparr>)]\<rparr>"
    by simp
  have "repeat_update (Suc n) i g
      = snd (update_element 0 0 i
               (g\<lparr>elements := (elements g)[i := EBomb (b\<lparr>bomb_timer := bomb_timer b + int n\<rparr>)]\<rparr>))"
    by (simp only: repeat_update.simps ih)
  also have "\<dots> = g\<lparr>elements := (elements g)[i := EBomb (b\<lparr>bomb_timer := bomb_timer b + int (Suc n)\<rparr>)]\<rparr>"
    using Suc.prems
    by (subst bomb_dormant_update [where b = "b\<lparr>bomb_timer := bomb_timer b + int n\<rparr>"])
       (simp_all add: algebra_simps)
  finally show ?case .
qed

lemma sqrt_361: "sqrt 361 = 19"
  using real_sqrt_abs [of 19] by simp

lemma sqrt_196: "sqrt 196 = 14"
  using real_sqrt_abs [of 14] by simp

lemma bomb_registered:
  "add_element (EBomb ((Bomb_init 30)\<lparr>enemy_x := 69, enemy_y := 250\<rparr>))
        (start (init_game (TurtleAdventureGame_init 800 500 1)))
   = (start (init_game (TurtleAdventureGame_init 800 500 1)))
        \<lparr>elements := [EWaypoint, EHome, EPlayer,
                       EBomb ((Bomb_init 30)\<lparr>enemy_x := 69, enemy_y := 250, bomb_id := Some 4\<rparr>)],
         canvas := [Create_line ''green'', Create_line ''green'', Create_rectangle ''brown'',
                    Create_oval ''grey'']\<rparr>"
  by (simp add: add_element_def Bomb_create_def canvas_call_def next_id_def init_game_eq
        start_def Bomb_init_def)

lemma bomb_after_19:
  "repeat_update 19 3
     (add_element (EBomb ((Bomb_init 30)\<lparr>enemy_x := 69, enemy_y := 250\<rparr>))
        (start (init_game (TurtleAdventureGame_init 800 500 1))))
   = (start (init_game (TurtleAdventureGame_init 800 500 1)))
        \<lparr>elements := [EWaypoint, EHome, EPlayer,
                       EBomb ((Bomb_init 30)\<lparr>enemy_x := 69, enemy_y := 250, bomb_id := Some 4,
                                               bomb_timer := 19\<rparr>)],
         canvas := [Create_line ''green'', Create_line ''green'', Create_rectangle ''brown'',
                    Create_oval ''grey'']\<rparr>"
  unfolding bomb_registered
  by (subst bomb_dormant_run
        [where b = "(Bomb_init 30)\<lparr>enemy_x := 69, enemy_y := 250, bomb_id := Some 4\<rparr>"])
     (simp_all add: Bomb_init_def start_def init_game_eq)

lemma bomb_after_20:
  "repeat_update 20 3
     (add_element (EBomb ((Bomb_init 30)\<lparr>enemy_x := 69, enemy_y := 250\<rparr>))
        (start (init_game (TurtleAdventureGame_init 800 500 1))))
   = (start (init_game (TurtleAdventureGame_init 800 500 1)))
        \<lparr>elements := [EWaypoint, EHome, EPlayer,
                       EBomb ((Bomb_init 30)\<lparr>enemy_x := 69, enemy_y := 250, bomb_id := Some 4,
                                               bomb_timer := 20\<rparr>)],
         canvas := [Create_line ''green'', Create_line ''green'', Create_rectangle ''brown'',
                    Create_oval ''grey'', Itemconfigure (Some 4) ''red'']\<rparr>"
proof -
  have "repeat_update 20 3
     (add_element (EBomb ((Bomb_init 30)\<lparr>enemy_x := 69, enemy_y := 250\<rparr>))
        (start (init_game (TurtleAdventureGame_init 800 500 1))))
    = snd (update_element 0 0 3 (repeat_update 19 3
     (add_element (EBomb ((Bomb_init 30)\<lparr>enemy_x := 69, enemy_y := 250\<rparr>))
        (start (init_game (TurtleAdventureGame_init 800 500 1))))))"
    using repeat_update.simps(2) [of 19 3] by simp
  then show ?thesis
    unfolding bomb_after_19
    by (simp add: update_element_def Bomb_update_def Let_def Bomb_init_def start_def init_game_eq
          canvas_call_def hits_player_def player_x_def player_y_def xcor_def ycor_def)
qed

text \<open>
  C1 as stated fails. In a started game of level 1 on an 800 by 500 screen the player
  stands at (50, 250). A bomb of size 30 is registered at (69, 250), as the bombardier
  does it with the offsets 19 and 0; its box reaches from 54 to 84 and from 235 to 265.
  Twenty updates arm the bomb, the player being outside the box. A click at (69, 250)
  activates the waypoint, and the player's next update takes it to (55, 250), inside the
  box. The bomb's next update, tick 21, tests the player again and stops the game with
  the losing banner. Afterwards the bomb, its canvas item deleted, is still the fourth
  element of the collection.
\<close>

theorem bomb_tests_player_in_tick_21_and_stays_registered:
  "snd (update_element 0 0 3
     (snd (update_element 0 0 2
        (activate 69 250
           (repeat_update 20 3
              (add_element (EBomb ((Bomb_init 30)\<lparr>enemy_x := 69, enemy_y := 250\<rparr>))
                 (start (init_game (TurtleAdventureGame_init 800 500 1)))))))))
   = (start (init_game (TurtleAdventureGame_init 800 500 1)))
        \<lparr>waypoint := \<lparr>wp_id1 = Some 1, wp_id2 = Some 2, wp_active = True, wp_x = 69, wp_y = 250\<rparr>,
         player := \<lparr>pl_speed = 5, pl_turtle = \<lparr>t_position = (55, 250), t_orient = (1, 0)\<rparr>\<rparr>,
         elements := [EWaypoint, EHome, EPlayer,
                       EBomb ((Bomb_init 30)\<lparr>enemy_x := 69, enemy_y := 250, bomb_id := Some 4,
                                               bomb_timer := 21\<rparr>)],
         is_running := False,
         canvas := [Create_line ''green'', Create_line ''green'', Create_rectangle ''brown'',
                    Create_oval ''grey'', Itemconfigure (Some 4) ''red'',
                    Itemconfigure (Some 4) ''red'', Create_text 400 250 ''You Lose'' ''red'',
                    Delete (Some 4)]\<rparr>"
  unfolding bomb_after_20
  by (simp add: update_element_def Player_update_def activate_def start_def init_game_eq
        contains_def player_x_def player_y_def xcor_def ycor_def Let_def towards_def
        distance_def setheading_def forward_def deactivate_def sqrt_361 sqrt_196
        Bomb_update_def Bomb_delete_def Bomb_init_def canvas_call_def hits_player_def
        game_over_lose_def stop_def)

section \<open>The terminal notifications\<close>

lemma stop_stopped: "\<not> is_running g \<Longrightarrow> stop g = g"
  by (cases g) (simp add: stop_def)

text \<open>
  C4, amended. A notification stops the orchestrator, and it stays stopped. The two
  notifications are not guarded: called on a game that is already stopped, each leaves
  every attribute of the game as it is but draws its banner on the canvas again, and
  every call makes one more canvas item.
\<close>

theorem later_notification_draws_banner_again:
  "is_running (game_over_win g) = False
   \<and> is_running (game_over_lose g) = False
   \<and> (\<not> is_running g \<longrightarrow>
        game_over_win g
          = canvas_call (Create_text (real_of_int (screen_width g) / 2)
                           (real_of_int (screen_height g) / 2) ''You Win'' ''green'') g
        \<and> game_over_lose g
          = canvas_call (Create_text (real_of_int (screen_width g) / 2)
                           (real_of_int (screen_height g) / 2) ''You Lose'' ''red'') g)
   \<and> length (canvas (game_over_win g)) = Suc (length (canvas g))
   \<and> length (canvas (game_over_lose g)) = Suc (length (canvas g))"
  by (simp add: game_over_win_def game_over_lose_def stop_stopped canvas_call_def)
     (simp add: stop_def)

text \<open>The losing notification on the game that the winning notification has stopped.\<close>

theorem later_notification_draws_banner_again_witness:
  "\<not> is_running (game_over_win (start (init_game (TurtleAdventureGame_init 800 500 1))))
   \<and> game_over_lose (game_over_win (start (init_game (TurtleAdventureGame_init 800 500 1))))
     = canvas_call (Create_text 400 250 ''You Lose'' ''red'')
         (game_over_win (start (init_game (TurtleAdventureGame_init 800 500 1))))"
  using later_notification_draws_banner_again
    [of "game_over_win (start (init_game (TurtleAdventureGame_init 800 500 1)))"]
  by (simp add: game_over_win_def canvas_call_def stop_def start_def init_game_eq)

text \<open>
  C4 as stated fails. In a running game of level 1 on an 800 by 500 screen the player
  has reached Home and \<open>game_over_win\<close> has stopped the game; an enemy that hits the
  player later in the same tick calls \<open>game_over_lose\<close>. The second notification is
  not a no-op: it puts the losing banner on the canvas, over the winning one.
\<close>

theorem second_notification_changes_canvas:
  "canvas (game_over_lose (game_over_win (start (init_game (TurtleAdventureGame_init 800 500 1)))))
     = [Create_line ''green'', Create_line ''green'', Create_rectangle ''brown'',
        Create_text 400 250 ''You Win'' ''green'', Create_text 400 250 ''You Lose'' ''red'']
   \<and> game_over_lose (game_over_win (start (init_game (TurtleAdventureGame_init 800 500 1))))
     \<noteq> game_over_win (start (init_game (TurtleAdventureGame_init 800 500 1)))"
  by (simp add: game_over_win_def game_over_lose_def canvas_call_def stop_def start_def
        init_game_eq)

section \<open>What no operation changes\<close>

text \<open>
  The list \<open>enemies\<close>, the level, Home's size and the generator are the same before
  and after every operation that follows the game's initialisation.
\<close>

lemma same_configuration_canvas_call: "same_configuration (canvas_call c g) g"
  by (simp add: canvas_call_def)

lemma same_configuration_game_over_win: "same_configuration (game_over_win g) g"
  by (simp add: game_over_win_def canvas_call_def stop_def)

lemma same_configuration_game_over_lose: "same_configuration (game_over_lose g) g"
  by (simp add: game_over_lose_def canvas_call_def stop_def)

lemma same_configuration_create: "create e g = (e', g') \<Longrightarrow> same_configuration g' g"
  by (cases e)
     (auto simp: Waypoint_create_def Home_create_def Player_create_def
        RandomWalkEnemy_create_def ChasingEnemy_create_def FencingEnemy_create_def
        DeDestroyerEnemy_create_def Bomb_create_def Let_def canvas_call_def)

lemma same_configuration_add_element: "same_configuration (add_element e g) g"
  using same_configuration_create [of e g]
  by (cases "create e g") (simp add: add_element_def)

lemma same_configuration_Player_update: "same_configuration (Player_update g) g"
  by (simp add: Player_update_def Let_def deactivate_def game_over_win_def canvas_call_def
        stop_def)

lemma same_configuration_Bomb_update:
  "Bomb_update b g = (b', g') \<Longrightarrow> same_configuration g' g"
  by (auto simp: Bomb_update_def Let_def Bomb_delete_def canvas_call_def game_over_lose_def
        stop_def)

lemma same_configuration_RandomWalkEnemy_update:
  "RandomWalkEnemy_update u e g = Inr (e', g') \<Longrightarrow> same_configuration g' g"
  by (auto simp: RandomWalkEnemy_update_def game_over_lose_def canvas_call_def stop_def
        split: sum.splits if_splits)

lemma same_configuration_ChasingEnemy_update:
  "ChasingEnemy_update e g = (e', g') \<Longrightarrow> same_configuration g' g"
  by (auto simp: ChasingEnemy_update_def Let_def game_over_lose_def canvas_call_def stop_def)

lemma same_configuration_FencingEnemy_update:
  "FencingEnemy_update e g = (e', g') \<Longrightarrow> same_configuration g' g"
  by (auto simp: FencingEnemy_update_def Let_def game_over_lose_def canvas_call_def stop_def)

lemma same_configuration_DeDestroyerEnemy_update:
  assumes "DeDestroyerEnemy_update u1 u2 e g = Inr (e', g')"
  shows "same_configuration g' g"
proof (cases "(dd_timer e + 1) mod 20 = 0")
  case True
  with assms obtain b where "g' = add_element (EBomb b) g"
    by (auto simp: DeDestroyerEnemy_update_def Let_def split: sum.splits)
  then show ?thesis using same_configuration_add_element [of "EBomb b" g] by simp
next
  case False
  with assms show ?thesis by (simp add: DeDestroyerEnemy_update_def Let_def)
qed

lemma same_configuration_update_element:
  assumes "update_element u1 u2 i g = (err, g')"
  shows "same_configuration g' g"
proof (cases "elements g ! i")
  case EWaypoint
  with assms show ?thesis by (simp add: update_element_def)
next
  case EHome
  with assms show ?thesis by (simp add: update_element_def)
next
  case EPlayer
  with assms same_configuration_Player_update [of g] show ?thesis
    by (auto simp: update_element_def)
next
  case (ERandomWalk e)
  with assms show ?thesis
    by (auto simp: update_element_def split: sum.splits prod.splits
        dest: same_configuration_RandomWalkEnemy_update)
next
  case (EChasing e)
  with assms show ?thesis
    by (auto simp: update_element_def split: prod.splits
        dest: same_configuration_ChasingEnemy_update)
next
  case (EFencing e)
  with assms show ?thesis
    by (auto simp: update_element_def split: prod.splits
        dest: same_configuration_FencingEnemy_update)
next
  case (EDeDestroyer e)
  with assms show ?thesis
    by (auto simp: update_element_def split: sum.splits prod.splits
        dest: same_configuration_DeDestroyerEnemy_update)
next
  case (EBomb b)
  with assms show ?thesis
    by (auto simp: update_element_def split: prod.splits
        dest: same_configuration_Bomb_update)
qed

lemma same_configuration_register_and_reschedule:
  assumes "register_and_reschedule e g = (err, g')"
  shows "same_configuration g' g"
  using assms same_configuration_add_element [of e g]
  by (auto simp: register_and_reschedule_def Let_def after_def split: sum.splits)

lemma same_configuration_create_enemy:
  "create_enemy uk ux uy us g = Some (err, g') \<Longrightarrow> same_configuration g' g"
  unfolding create_enemy_def Let_def
  by (auto split: prod.splits if_splits sum.splits option.splits
      dest: same_configuration_register_and_reschedule)

text \<open>Home's size is 20 and the generator's speed three times the level, always.\<close>

lemma reachable_home_and_speed:
  "reachable g \<Longrightarrow> hm_size (home g) = 20 \<and> gen_speed (enemy_generator g) = level g * 3"
proof (induction rule: reachable.induct)
  case (reachable_init w h lvl)
  show ?case by (simp add: init_game_eq)
next
  case (reachable_start g)
  then show ?case by (simp add: start_def)
next
  case (reachable_click g ax ay)
  then show ?case by (simp add: activate_def)
next
  case (reachable_update g i u1 u2 err g')
  then show ?case using same_configuration_update_element [of u1 u2 i g err g'] by simp
next
  case (reachable_fire g d ds uk ux uy us err g')
  then show ?case
    using same_configuration_create_enemy [of uk ux uy us "g\<lparr>timers := ds\<rparr>" err g'] by simp
qed

section \<open>The list \<open>enemies\<close>\<close>

text \<open>
  C10. In every reachable state of a game the list \<open>enemies\<close> is empty: the constructor
  makes it empty, and the spawn scheduler, the bombardier and every \<open>update\<close> register
  what they create through \<open>add_element\<close>, never through \<open>add_enemy\<close>, the one method
  that appends to the list (a call of it would leave the list with one enemy).
\<close>

theorem enemies_list_always_empty:
  "reachable g \<Longrightarrow> enemies g = [] \<and> enemies (add_enemy e g) = [e]"
proof (induction rule: reachable.induct)
  case (reachable_init w h lvl)
  show ?case
    using same_configuration_add_element
      [of e "(init_game (TurtleAdventureGame_init w h lvl))
               \<lparr>enemies := enemies (init_game (TurtleAdventureGame_init w h lvl)) @ [e]\<rparr>"]
    by (simp add: init_game_eq add_enemy_def)
next
  case (reachable_start g)
  then show ?case
    using same_configuration_add_element [of e "g\<lparr>enemies := enemies g @ [e]\<rparr>"]
      same_configuration_add_element
        [of e "(start g)\<lparr>enemies := enemies (start g) @ [e]\<rparr>"]
    by (simp add: start_def add_enemy_def)
next
  case (reachable_click g ax ay)
  then show ?case
    using same_configuration_add_element
        [of e "(activate ax ay g)\<lparr>enemies := enemies (activate ax ay g) @ [e]\<rparr>"]
    by (simp add: activate_def add_enemy_def)
next
  case (reachable_update g i u1 u2 err g')
  then show ?case
    using same_configuration_update_element [of u1 u2 i g err g']
      same_configuration_add_element [of e "g'\<lparr>enemies := enemies g' @ [e]\<rparr>"]
    by (simp add: add_enemy_def)
next
  case (reachable_fire g d ds uk ux uy us err g')
  then show ?case
    using same_configuration_create_enemy [of uk ux uy us "g\<lparr>timers := ds\<rparr>" err g']
      same_configuration_add_element [of e "g'\<lparr>enemies := enemies g' @ [e]\<rparr>"]
    by (simp add: add_enemy_def)
qed

lemma create_enemy_fencing_level1:
  "create_enemy 2 0 0 [] ((init_game (TurtleAdventureGame_init 800 500 1))\<lparr>timers := []\<rparr>)
   = Some (None,
       (init_game (TurtleAdventureGame_init 800 500 1))
         \<lparr>elements := [EWaypoint, EHome, EPlayer,
                        EFencing ((FencingEnemy_init (init_game (TurtleAdventureGame_init 800 500 1))
                                     20 ''green'' 3)\<lparr>enemy_x := 670, enemy_y := 220,
                                                       fe_id := Some 4\<rparr>)],
          canvas := [Create_line ''green'', Create_line ''green'', Create_rectangle ''brown'',
                     Create_oval ''green''],
          timers := [4000]\<rparr>)"
  by (simp add: create_enemy_def choice_def enemy_dict_def init_game_eq FencingEnemy_init_def
        register_and_reschedule_def add_element_def FencingEnemy_create_def canvas_call_def
        next_id_def int_truediv_def after_def Let_def)

text \<open>
  The game of level 1 on an 800 by 500 screen after the first firing of the scheduler,
  which has chosen a patroller.
\<close>

theorem enemies_list_always_empty_witness:
  "reachable
     ((init_game (TurtleAdventureGame_init 800 500 1))
         \<lparr>elements := [EWaypoint, EHome, EPlayer,
                        EFencing ((FencingEnemy_init (init_game (TurtleAdventureGame_init 800 500 1))
                                     20 ''green'' 3)\<lparr>enemy_x := 670, enemy_y := 220,
                                                       fe_id := Some 4\<rparr>)],
          canvas := [Create_line ''green'', Create_line ''green'', Create_rectangle ''brown'',
                     Create_oval ''green''],
          timers := [4000]\<rparr>)
   \<and> enemies
     ((init_game (TurtleAdventureGame_init 800 500 1))
         \<lparr>elements := [EWaypoint, EHome, EPlayer,
                        EFencing ((FencingEnemy_init (init_game (TurtleAdventureGame_init 800 500 1))
                                     20 ''green'' 3)\<lparr>enemy_x := 670, enemy_y := 220,
                                                       fe_id := Some 4\<rparr>)],
          canvas := [Create_line ''green'', Create_line ''green'', Create_rectangle ''brown'',
                     Create_oval ''green''],
          timers := [4000]\<rparr>) = []"
proof -
  have t: "timers (init_game (TurtleAdventureGame_init 800 500 1)) = 100 # []"
    by (simp add: init_game_eq)
  have r: "reachable
     ((init_game (TurtleAdventureGame_init 800 500 1))
         \<lparr>elements := [EWaypoint, EHome, EPlayer,
                        EFencing ((FencingEnemy_init (init_game (TurtleAdventureGame_init 800 500 1))
                                     20 ''green'' 3)\<lparr>enemy_x := 670, enemy_y := 220,
                                                       fe_id := Some 4\<rparr>)],
          canvas := [Create_line ''green'', Create_line ''green'', Create_rectangle ''brown'',
                     Create_oval ''green''],
          timers := [4000]\<rparr>)"
    by (rule reachable_fire [OF reachable_init t create_enemy_fencing_level1])
  show ?thesis using r enemies_list_always_empty [OF r] by simp
qed

section \<open>The constructors\<close>

lemma add_element_registers:
  "elements (add_element e g) = elements g @ [fst (create e g)]
   \<and> timers (add_element e g) = timers g"
  by (cases e)
     (simp_all add: add_element_def Waypoint_create_def Home_create_def Player_create_def
        RandomWalkEnemy_create_def ChasingEnemy_create_def FencingEnemy_create_def
        DeDestroyerEnemy_create_def Bomb_create_def Let_def canvas_call_def)

lemma register_and_reschedule_level_0:
  "level g = 0 \<Longrightarrow> register_and_reschedule e g = (Some ZeroDivisionError, add_element e g)"
  using same_configuration_add_element [of e g]
  by (simp add: register_and_reschedule_def int_truediv_def Let_def)

lemma create_enemy_level_0:
  assumes l: "level g = 0" and w: "0 \<le> screen_width g" and h: "0 \<le> screen_height g"
    and c: "create_enemy uk ux uy us g = Some (err, g')"
  shows "err = Some ZeroDivisionError \<and> (\<exists>e. g' = add_element e g)"
proof -
  have x: "randint 0 (screen_width g) u \<noteq> Inl er" for u er
    using w by (simp add: randint_def)
  have y: "randint 0 (screen_height g) u \<noteq> Inl er" for u er
    using h by (simp add: randint_def)
  have r: "reroll (screen_width g) ex vs \<noteq> Some (Inl er)" for ex vs er
  proof (induction vs arbitrary: ex)
    case Nil
    show ?case by simp
  next
    case (Cons v vs)
    then show ?case using x by (simp split: sum.splits)
  qed
  from c obtain e where "register_and_reschedule e g = (err, g')"
    using x y r
    by (auto simp: create_enemy_def Let_def split: prod.splits if_splits sum.splits
          option.splits)
  with register_and_reschedule_level_0 [OF l, of e] show ?thesis by auto
qed

text \<open>
  C9, amended. No constructor of the core checks its configuration: the game, the
  generator, the enemies, the bomb, the player and the home are constructed whatever
  the sign of the level, the speed or the size, and each stores what it is given
  unchanged (the chaser and the patroller store the speed divided by 3 and by 4, the
  generator the level times 3). A level of 0 is met only when the scheduler fires: a
  firing that returns, in a game of level 0 whose screen dimensions are not negative,
  has registered the new enemy as the last element of the collection, has scheduled no
  further firing, and has raised \<open>ZeroDivisionError\<close>.
\<close>

theorem constructors_store_configuration_unchanged:
  "level (TurtleAdventureGame_init w h lvl) = lvl
   \<and> level (init_game (TurtleAdventureGame_init w h lvl)) = lvl
   \<and> enemy_generator (EnemyGenerator_init lvl g) = \<lparr>gen_level = lvl, gen_speed = lvl * 3\<rparr>
   \<and> enemy_size (Enemy_init sz col) = sz
   \<and> enemy.truncate (RandomWalkEnemy_init sz col speed) = Enemy_init sz col
   \<and> rw_speed (RandomWalkEnemy_init sz col speed) = speed
   \<and> enemy.truncate (ChasingEnemy_init sz col speed) = Enemy_init sz col
   \<and> ch_speed (ChasingEnemy_init sz col speed) = real_of_int speed / 3
   \<and> enemy.truncate (FencingEnemy_init g sz col speed) = Enemy_init sz col
   \<and> fe_speed (FencingEnemy_init g sz col speed) = real_of_int speed / 4
   \<and> enemy.truncate (DeDestroyerEnemy_init sz col speed) = Enemy_init sz col
   \<and> enemy.truncate (Bomb_init sz) = Enemy_init sz ''grey''
   \<and> pl_speed (Player_init t sp) = sp
   \<and> hm_size (Home_init pos sz) = sz
   \<and> (level g = 0 \<longrightarrow>
        register_and_reschedule e g = (Some ZeroDivisionError, add_element e g)
        \<and> fst (register_and_reschedule e g) = Some ZeroDivisionError)
   \<and> (level g = 0 \<and> 0 \<le> screen_width g \<and> 0 \<le> screen_height g
        \<and> create_enemy uk ux uy us g = Some (err, g') \<longrightarrow>
        err = Some ZeroDivisionError
        \<and> (\<exists>e0. g' = add_element e0 g \<and> elements g' = elements g @ [fst (create e0 g)])
        \<and> length (elements g') = Suc (length (elements g))
        \<and> timers g' = timers g)"
proof -
  have c: "level (TurtleAdventureGame_init w h lvl) = lvl
   \<and> level (init_game (TurtleAdventureGame_init w h lvl)) = lvl
   \<and> enemy_generator (EnemyGenerator_init lvl g) = \<lparr>gen_level = lvl, gen_speed = lvl * 3\<rparr>
   \<and> enemy_size (Enemy_init sz col) = sz
   \<and> enemy.truncate (RandomWalkEnemy_init sz col speed) = Enemy_init sz col
   \<and> rw_speed (RandomWalkEnemy_init sz col speed) = speed
   \<and> enemy.truncate (ChasingEnemy_init sz col speed) = Enemy_init sz col
   \<and> ch_speed (ChasingEnemy_init sz col speed) = real_of_int speed / 3
   \<and> enemy.truncate (FencingEnemy_init g sz col speed) = Enemy_init sz col
   \<and> fe_speed (FencingEnemy_init g sz col speed) = real_of_int speed / 4
   \<and> enemy.truncate (DeDestroyerEnemy_init sz col speed) = Enemy_init sz col
   \<and> enemy.truncate (Bomb_init sz) = Enemy_init sz ''grey''
   \<and> pl_speed (Player_init t sp) = sp
   \<and> hm_size (Home_init pos sz) = sz"
    by (simp add: init_game_eq EnemyGenerator_init_def Enemy_init_def
        RandomWalkEnemy_init_def ChasingEnemy_init_def FencingEnemy_init_def
        DeDestroyerEnemy_init_def Bomb_init_def Player_init_def Home_init_def enemy.truncate_def)
       (simp add: TurtleAdventureGame_init_def)
  have r: "level g = 0 \<longrightarrow>
        register_and_reschedule e g = (Some ZeroDivisionError, add_element e g)
        \<and> fst (register_and_reschedule e g) = Some ZeroDivisionError"
    using register_and_reschedule_level_0 [of g e] by simp
  have f: "level g = 0 \<and> 0 \<le> screen_width g \<and> 0 \<le> screen_height g
        \<and> create_enemy uk ux uy us g = Some (err, g') \<longrightarrow>
        err = Some ZeroDivisionError
        \<and> (\<exists>e0. g' = add_element e0 g \<and> elements g' = elements g @ [fst (create e0 g)])
        \<and> length (elements g') = Suc (length (elements g))
        \<and> timers g' = timers g"
  proof
    assume a: "level g = 0 \<and> 0 \<le> screen_width g \<and> 0 \<le> screen_height g
        \<and> create_enemy uk ux uy us g = Some (err, g')"
    then obtain e0 where e: "err = Some ZeroDivisionError" and g': "g' = add_element e0 g"
      using create_enemy_level_0 [of g uk ux uy us err g'] by auto
    from g' add_element_registers [of e0 g]
    have "elements g' = elements g @ [fst (create e0 g)]" "timers g' = timers g"
      by simp_all
    with e g' show "err = Some ZeroDivisionError
        \<and> (\<exists>e0. g' = add_element e0 g \<and> elements g' = elements g @ [fst (create e0 g)])
        \<and> length (elements g') = Suc (length (elements g))
        \<and> timers g' = timers g"
      by auto
  qed
  from c r f show ?thesis by (intro conjI) simp_all
qed

lemma create_enemy_chaser_level0:
  "create_enemy 1 40 400 [] ((init_game (TurtleAdventureGame_init 800 500 0))\<lparr>timers := []\<rparr>)
   = Some (Some ZeroDivisionError,
       (init_game (TurtleAdventureGame_init 800 500 0))
         \<lparr>elements := [EWaypoint, EHome, EPlayer,
                        EChasing ((ChasingEnemy_init 20 ''red'' 0)
                                    \<lparr>enemy_x := 40, enemy_y := 400, ch_id := Some 4\<rparr>)],
          canvas := [Create_line ''green'', Create_line ''green'', Create_rectangle ''brown'',
                     Create_oval ''red''],
          timers := []\<rparr>)"
  by (simp add: create_enemy_def choice_def enemy_dict_def init_game_eq ChasingEnemy_init_def
        register_and_reschedule_def add_element_def ChasingEnemy_create_def canvas_call_def
        next_id_def int_truediv_def after_def Let_def randint_def)

text \<open>
  The first firing in a game of level 0 on an 800 by 500 screen: the scheduler chooses a
  chaser, registers it at (40, 400) as the fourth element, and raises
  \<open>ZeroDivisionError\<close>; no further firing is scheduled.
\<close>

theorem constructors_store_configuration_unchanged_witness:
  "level ((init_game (TurtleAdventureGame_init 800 500 0))\<lparr>timers := []\<rparr>) = 0
   \<and> 0 \<le> screen_width ((init_game (TurtleAdventureGame_init 800 500 0))\<lparr>timers := []\<rparr>)
   \<and> 0 \<le> screen_height ((init_game (TurtleAdventureGame_init 800 500 0))\<lparr>timers := []\<rparr>)
   \<and> create_enemy 1 40 400 []
        ((init_game (TurtleAdventureGame_init 800 500 0))\<lparr>timers := []\<rparr>)
     = Some (Some ZeroDivisionError,
       (init_game (TurtleAdventureGame_init 800 500 0))
         \<lparr>elements := [EWaypoint, EHome, EPlayer,
                        EChasing ((ChasingEnemy_init 20 ''red'' 0)
                                    \<lparr>enemy_x := 40, enemy_y := 400, ch_id := Some 4\<rparr>)],
          canvas := [Create_line ''green'', Create_line ''green'', Create_rectangle ''brown'',
                     Create_oval ''red''],
          timers := []\<rparr>)
   \<and> length (elements
        ((init_game (TurtleAdventureGame_init 800 500 0))
         \<lparr>elements := [EWaypoint, EHome, EPlayer,
                        EChasing ((ChasingEnemy_init 20 ''red'' 0)
                                    \<lparr>enemy_x := 40, enemy_y := 400, ch_id := Some 4\<rparr>)],
          canvas := [Create_line ''green'', Create_line ''green'', Create_rectangle ''brown'',
                     Create_oval ''red''],
          timers := []\<rparr>))
     = Suc (length (elements
              ((init_game (TurtleAdventureGame_init 800 500 0))\<lparr>timers := []\<rparr>)))
   \<and> register_and_reschedule (EChasing (ChasingEnemy_init 20 ''red'' 0))
            ((init_game (TurtleAdventureGame_init 800 500 0))\<lparr>timers := []\<rparr>)
     = (Some ZeroDivisionError,
        add_element (EChasing (ChasingEnemy_init 20 ''red'' 0))
          ((init_game (TurtleAdventureGame_init 800 500 0))\<lparr>timers := []\<rparr>))"
proof -
  have l: "level ((init_game (TurtleAdventureGame_init 800 500 0))\<lparr>timers := []\<rparr>) = 0"
    and w: "0 \<le> screen_width ((init_game (TurtleAdventureGame_init 800 500 0))\<lparr>timers := []\<rparr>)"
    and h: "0 \<le> screen_height ((init_game (TurtleAdventureGame_init 800 500 0))\<lparr>timers := []\<rparr>)"
    by (simp_all add: init_game_eq)
  from constructors_store_configuration_unchanged
    [where g = "(init_game (TurtleAdventureGame_init 800 500 0))\<lparr>timers := []\<rparr>"
       and e = "EChasing (ChasingEnemy_init 20 ''red'' 0)"
       and uk = 1 and ux = 40 and uy = 400 and us = "[]" and err = "Some ZeroDivisionError"
       and g' = "(init_game (TurtleAdventureGame_init 800 500 0))
         \<lparr>elements := [EWaypoint, EHome, EPlayer,
                        EChasing ((ChasingEnemy_init 20 ''red'' 0)
                                    \<lparr>enemy_x := 40, enemy_y := 400, ch_id := Some 4\<rparr>)],
          canvas := [Create_line ''green'', Create_line ''green'', Create_rectangle ''brown'',
                     Create_oval ''red''],
          timers := []\<rparr>"]
    l w h create_enemy_chaser_level0
  show ?thesis by simp
qed

text \<open>
  C9 as stated fails: a game of level 0 and one of level -1, whose generator gets the
  speed -3, an enemy of size -5 and a chaser of size -5 and speed -3 are constructed,
  and hold these values.
\<close>

theorem malformed_configuration_accepted:
  "level (TurtleAdventureGame_init 800 500 0) = 0
   \<and> level (init_game (TurtleAdventureGame_init 800 500 (- 1))) = - 1
   \<and> gen_speed (enemy_generator (init_game (TurtleAdventureGame_init 800 500 (- 1)))) = - 3
   \<and> enemy_size (Enemy_init (- 5) ''red'') = - 5
   \<and> enemy_size (ChasingEnemy_init (- 5) ''red'' (- 3)) = - 5
   \<and> ch_speed (ChasingEnemy_init (- 5) ''red'' (- 3)) = - 1"
  by (simp add: init_game_eq Enemy_init_def ChasingEnemy_init_def)
     (simp add: TurtleAdventureGame_init_def)

section \<open>The random walker\<close>

lemma randint_bounds: "randint lo hi u = Inr r \<Longrightarrow> lo \<le> r \<and> r \<le> hi"
proof -
  assume a: "randint lo hi u = Inr r"
  then have le: "lo \<le> hi" and r: "r = lo + int u mod (hi - lo + 1)"
    by (auto simp: randint_def split: if_splits)
  have pos: "0 < hi - lo + 1" using le by simp
  have "0 \<le> int u mod (hi - lo + 1)" and "int u mod (hi - lo + 1) < hi - lo + 1"
    using pos_mod_sign [OF pos] pos_mod_bound [OF pos] by simp_all
  then show ?thesis using r by linarith
qed

text \<open>
  C5, amended. In a tick that leaves the walker moving left, x changes by an integer
  between \<open>-speed\<close> and \<open>speed - 3\<close>; in a tick that leaves it moving right, by an
  integer between \<open>4 - speed\<close> and \<open>speed + 1\<close>. So x is non-increasing while
  moving left and non-decreasing while moving right when the speed is at most 3, which
  of the scheduler's speeds, three times the level, is the one of level 1. The state
  flips exactly in a tick that finds x below 0 while moving left or beyond the canvas
  width while moving right, and that tick leaves x as it is.
\<close>

theorem random_walker_step_range:
  assumes "RandomWalkEnemy_state u e g = Inr e'"
  shows "(rw_state e = Walk_left \<and> rw_state e' = Walk_left \<longrightarrow>
            (\<exists>r. - rw_speed e \<le> r \<and> r \<le> rw_speed e - 3
                 \<and> enemy_x e' = enemy_x e + real_of_int r))
       \<and> (rw_state e = Walk_right \<and> rw_state e' = Walk_right \<longrightarrow>
            (\<exists>r. 4 - rw_speed e \<le> r \<and> r \<le> rw_speed e + 1
                 \<and> enemy_x e' = enemy_x e + real_of_int r))
       \<and> (rw_speed e \<le> 3 \<longrightarrow>
            (rw_state e = Walk_left \<longrightarrow> enemy_x e' \<le> enemy_x e)
            \<and> (rw_state e = Walk_right \<longrightarrow> enemy_x e \<le> enemy_x e'))
       \<and> (rw_state e' \<noteq> rw_state e \<longleftrightarrow>
            (rw_state e = Walk_left \<and> enemy_x e < 0)
            \<or> (rw_state e = Walk_right \<and> enemy_x e > real_of_int (winfo_width g)))
       \<and> (rw_state e' \<noteq> rw_state e \<longrightarrow> enemy_x e' = enemy_x e)"
proof (cases "rw_state e")
  case Walk_left
  show ?thesis
  proof (cases "enemy_x e < 0")
    case True
    with Walk_left assms have "e' = e\<lparr>rw_state := Walk_right\<rparr>"
      by (simp add: RandomWalkEnemy_state_def RandomWalkEnemy_left_def)
    with Walk_left True show ?thesis by simp
  next
    case False
    with Walk_left assms obtain r where
      r: "randint (- rw_speed e) (rw_speed e - 4 + 1) u = Inr r"
      and e': "e' = e\<lparr>enemy_x := enemy_x e + real_of_int r\<rparr>"
      by (auto simp: RandomWalkEnemy_state_def RandomWalkEnemy_left_def split: sum.splits)
    from randint_bounds [OF r] have b: "- rw_speed e \<le> r" "r \<le> rw_speed e - 3" by simp_all
    then have "\<exists>r. - rw_speed e \<le> r \<and> r \<le> rw_speed e - 3
                 \<and> enemy_x e' = enemy_x e + real_of_int r"
      using e' by (intro exI [of _ r]) simp
    moreover have "rw_speed e \<le> 3 \<longrightarrow> enemy_x e' \<le> enemy_x e"
      using b e' by simp
    ultimately show ?thesis using Walk_left False e' by simp
  qed
next
  case Walk_right
  show ?thesis
  proof (cases "enemy_x e > real_of_int (winfo_width g)")
    case True
    with Walk_right assms have "e' = e\<lparr>rw_state := Walk_left\<rparr>"
      by (simp add: RandomWalkEnemy_state_def RandomWalkEnemy_right_def)
    with Walk_right True show ?thesis by simp
  next
    case False
    with Walk_right assms obtain r where
      r: "randint (- rw_speed e + 4) (rw_speed e + 1) u = Inr r"
      and e': "e' = e\<lparr>enemy_x := enemy_x e + real_of_int r\<rparr>"
      by (auto simp: RandomWalkEnemy_state_def RandomWalkEnemy_right_def split: sum.splits)
    from randint_bounds [OF r] have b: "4 - rw_speed e \<le> r" "r \<le> rw_speed e + 1" by simp_all
    then have "\<exists>r. 4 - rw_speed e \<le> r \<and> r \<le> rw_speed e + 1
                 \<and> enemy_x e' = enemy_x e + real_of_int r"
      using e' by (intro exI [of _ r]) simp
    moreover have "rw_speed e \<le> 3 \<longrightarrow> enemy_x e \<le> enemy_x e'"
      using b e' by simp
    ultimately show ?thesis using Walk_right False e' by simp
  qed
qed


text \<open>A walker of level 1 (speed 3) at x = 100, moving right, draws the step 3.\<close>

theorem random_walker_step_range_witness:
  "RandomWalkEnemy_state 2 ((RandomWalkEnemy_init 20 ''purple'' 3)\<lparr>enemy_x := 100\<rparr>)
       (init_game (TurtleAdventureGame_init 800 500 1))
     = Inr ((RandomWalkEnemy_init 20 ''purple'' 3)\<lparr>enemy_x := 103\<rparr>)
   \<and> rw_speed ((RandomWalkEnemy_init 20 ''purple'' 3)\<lparr>enemy_x := 100\<rparr>) \<le> 3
   \<and> rw_state ((RandomWalkEnemy_init 20 ''purple'' 3)\<lparr>enemy_x := 100\<rparr>) = Walk_right
   \<and> enemy_x ((RandomWalkEnemy_init 20 ''purple'' 3)\<lparr>enemy_x := 100\<rparr>)
       \<le> enemy_x ((RandomWalkEnemy_init 20 ''purple'' 3)\<lparr>enemy_x := 103\<rparr>)"
proof -
  have h: "RandomWalkEnemy_state 2 ((RandomWalkEnemy_init 20 ''purple'' 3)\<lparr>enemy_x := 100\<rparr>)
       (init_game (TurtleAdventureGame_init 800 500 1))
     = Inr ((RandomWalkEnemy_init 20 ''purple'' 3)\<lparr>enemy_x := 103\<rparr>)"
    by (simp add: RandomWalkEnemy_state_def RandomWalkEnemy_right_def RandomWalkEnemy_init_def
          randint_def init_game_eq)
  show ?thesis using h random_walker_step_range [OF h]
    by (simp add: RandomWalkEnemy_init_def)
qed

text \<open>
  C5 as stated fails. In the game of level 2 on an 800 by 500 screen the scheduler
  fires, chooses a walker, of speed 6, and places it at (100, 100), moving right. In
  the walker's first update x is within the canvas of width 800, the draw
  \<open>randint(-2, 7)\<close> answers -2, and the walker is at x = 98, still moving right.
\<close>

theorem random_walker_moves_left_while_moving_right:
  "create_enemy 0 100 100 [] ((init_game (TurtleAdventureGame_init 800 500 2))\<lparr>timers := []\<rparr>)
   = Some (None,
       (init_game (TurtleAdventureGame_init 800 500 2))
         \<lparr>elements := [EWaypoint, EHome, EPlayer,
                        ERandomWalk \<lparr>enemy_x = 100, enemy_y = 100, enemy_size = 20,
                                     enemy_color = ''purple'', rw_id = Some 4,
                                     rw_color2 = ''purple'', rw_state = Walk_right,
                                     rw_speed = 6\<rparr>],
          canvas := [Create_line ''green'', Create_line ''green'', Create_rectangle ''brown'',
                     Create_oval ''purple''],
          timers := [2000]\<rparr>)
   \<and> update_element 0 0 3
       ((init_game (TurtleAdventureGame_init 800 500 2))
         \<lparr>elements := [EWaypoint, EHome, EPlayer,
                        ERandomWalk \<lparr>enemy_x = 100, enemy_y = 100, enemy_size = 20,
                                     enemy_color = ''purple'', rw_id = Some 4,
                                     rw_color2 = ''purple'', rw_state = Walk_right,
                                     rw_speed = 6\<rparr>],
          canvas := [Create_line ''green'', Create_line ''green'', Create_rectangle ''brown'',
                     Create_oval ''purple''],
          timers := [2000]\<rparr>)
   = (None,
       (init_game (TurtleAdventureGame_init 800 500 2))
         \<lparr>elements := [EWaypoint, EHome, EPlayer,
                        ERandomWalk \<lparr>enemy_x = 98, enemy_y = 100, enemy_size = 20,
                                     enemy_color = ''purple'', rw_id = Some 4,
                                     rw_color2 = ''purple'', rw_state = Walk_right,
                                     rw_speed = 6\<rparr>],
          canvas := [Create_line ''green'', Create_line ''green'', Create_rectangle ''brown'',
                     Create_oval ''purple''],
          timers := [2000]\<rparr>)"
  by (simp add: create_enemy_def choice_def enemy_dict_def init_game_eq RandomWalkEnemy_init_def
        register_and_reschedule_def add_element_def RandomWalkEnemy_create_def canvas_call_def
        next_id_def int_truediv_def after_def Let_def randint_def update_element_def
        RandomWalkEnemy_update_def RandomWalkEnemy_state_def RandomWalkEnemy_right_def
        hits_player_def player_x_def player_y_def xcor_def ycor_def)

section \<open>The patroller\<close>

lemma fencing_state_frame:
  "fe_speed (FencingEnemy_state e) = fe_speed e
   \<and> home_top (FencingEnemy_state e) = home_top e
   \<and> home_bottom (FencingEnemy_state e) = home_bottom e
   \<and> home_left (FencingEnemy_state e) = home_left e
   \<and> home_right (FencingEnemy_state e) = home_right e"
  by (cases "fe_state e")
     (simp_all add: FencingEnemy_state_def FencingEnemy_down_def FencingEnemy_right_def
        FencingEnemy_up_def FencingEnemy_left_def)

lemma fencing_state_cyclic:
  "fe_state (FencingEnemy_state e) = fe_state e
   \<or> fe_state (FencingEnemy_state e) = next_fence_state (fe_state e)"
  by (cases "fe_state e")
     (simp_all add: FencingEnemy_state_def FencingEnemy_down_def FencingEnemy_right_def
        FencingEnemy_up_def FencingEnemy_left_def)

lemma fencing_grid_step:
  assumes s: "0 < fe_speed e"
    and gx: "enemy_x e = home_left e + real i * fe_speed e"
    and gy: "enemy_y e = home_top e + real j * fe_speed e"
    and bx: "enemy_x e < home_right e + fe_speed e"
    and by': "enemy_y e < home_bottom e + fe_speed e"
  shows "\<exists>i' j'. enemy_x (FencingEnemy_state e) = home_left e + real i' * fe_speed e
           \<and> enemy_y (FencingEnemy_state e) = home_top e + real j' * fe_speed e
           \<and> enemy_x (FencingEnemy_state e) < home_right e + fe_speed e
           \<and> enemy_y (FencingEnemy_state e) < home_bottom e + fe_speed e"
proof (cases "fe_state e")
  case Fence_down
  show ?thesis
  proof (cases "enemy_y e \<ge> home_bottom e")
    case True
    with Fence_down have "FencingEnemy_state e = e\<lparr>fe_state := Fence_right\<rparr>"
      by (simp add: FencingEnemy_state_def FencingEnemy_down_def)
    with gx gy bx by' show ?thesis by auto
  next
    case False
    with Fence_down have e': "FencingEnemy_state e = e\<lparr>enemy_y := enemy_y e + fe_speed e\<rparr>"
      by (simp add: FencingEnemy_state_def FencingEnemy_down_def)
    have "enemy_y e + fe_speed e = home_top e + real (Suc j) * fe_speed e"
      using gy by (simp add: algebra_simps)
    with e' gx bx False show ?thesis by (intro exI [of _ i] exI [of _ "Suc j"]) simp
  qed
next
  case Fence_right
  show ?thesis
  proof (cases "enemy_x e \<ge> home_right e")
    case True
    with Fence_right have "FencingEnemy_state e = e\<lparr>fe_state := Fence_up\<rparr>"
      by (simp add: FencingEnemy_state_def FencingEnemy_right_def)
    with gx gy bx by' show ?thesis by auto
  next
    case False
    with Fence_right have e': "FencingEnemy_state e = e\<lparr>enemy_x := enemy_x e + fe_speed e\<rparr>"
      by (simp add: FencingEnemy_state_def FencingEnemy_right_def)
    have "enemy_x e + fe_speed e = home_left e + real (Suc i) * fe_speed e"
      using gx by (simp add: algebra_simps)
    with e' gy by' False show ?thesis by (intro exI [of _ "Suc i"] exI [of _ j]) simp
  qed
next
  case Fence_up
  show ?thesis
  proof (cases "enemy_y e \<le> home_top e")
    case True
    with Fence_up have "FencingEnemy_state e = e\<lparr>fe_state := Fence_left\<rparr>"
      by (simp add: FencingEnemy_state_def FencingEnemy_up_def)
    with gx gy bx by' show ?thesis by auto
  next
    case False
    with Fence_up have e': "FencingEnemy_state e = e\<lparr>enemy_y := enemy_y e + - fe_speed e\<rparr>"
      by (simp add: FencingEnemy_state_def FencingEnemy_up_def)
    from False gy s have "0 < real j * fe_speed e" by simp
    with s have "j \<noteq> 0" by (cases j) simp_all
    then obtain j' where j: "j = Suc j'" by (cases j) simp_all
    have "enemy_y e + - fe_speed e = home_top e + real j' * fe_speed e"
      using gy j by (simp add: algebra_simps)
    moreover have "enemy_y e + - fe_speed e < home_bottom e + fe_speed e"
      using by' s by simp
    ultimately show ?thesis using e' gx bx by (intro exI [of _ i] exI [of _ j']) simp
  qed
next
  case Fence_left
  show ?thesis
  proof (cases "enemy_x e \<le> home_left e")
    case True
    with Fence_left have "FencingEnemy_state e = e\<lparr>fe_state := Fence_down\<rparr>"
      by (simp add: FencingEnemy_state_def FencingEnemy_left_def)
    with gx gy bx by' show ?thesis by auto
  next
    case False
    with Fence_left have e': "FencingEnemy_state e = e\<lparr>enemy_x := enemy_x e + - fe_speed e\<rparr>"
      by (simp add: FencingEnemy_state_def FencingEnemy_left_def)
    from False gx s have "0 < real i * fe_speed e" by simp
    with s have "i \<noteq> 0" by (cases i) simp_all
    then obtain i' where i: "i = Suc i'" by (cases i) simp_all
    have "enemy_x e + - fe_speed e = home_left e + real i' * fe_speed e"
      using gx i by (simp add: algebra_simps)
    moreover have "enemy_x e + - fe_speed e < home_right e + fe_speed e"
      using bx s by simp
    ultimately show ?thesis using e' gy by' by (intro exI [of _ i'] exI [of _ j]) simp
  qed
qed

lemma fencing_grid_run:
  assumes s: "0 < fe_speed e0"
    and x0: "enemy_x e0 = home_left e0" and y0: "enemy_y e0 = home_top e0"
    and w: "home_left e0 \<le> home_right e0" and h: "home_top e0 \<le> home_bottom e0"
  shows "fe_speed ((FencingEnemy_state ^^ n) e0) = fe_speed e0
       \<and> home_top ((FencingEnemy_state ^^ n) e0) = home_top e0
       \<and> home_bottom ((FencingEnemy_state ^^ n) e0) = home_bottom e0
       \<and> home_left ((FencingEnemy_state ^^ n) e0) = home_left e0
       \<and> home_right ((FencingEnemy_state ^^ n) e0) = home_right e0
       \<and> (\<exists>i j. enemy_x ((FencingEnemy_state ^^ n) e0) = home_left e0 + real i * fe_speed e0
              \<and> enemy_y ((FencingEnemy_state ^^ n) e0) = home_top e0 + real j * fe_speed e0)
       \<and> enemy_x ((FencingEnemy_state ^^ n) e0) < home_right e0 + fe_speed e0
       \<and> enemy_y ((FencingEnemy_state ^^ n) e0) < home_bottom e0 + fe_speed e0"
proof (induction n)
  case 0
  have "enemy_x e0 = home_left e0 + real 0 * fe_speed e0"
    "enemy_y e0 = home_top e0 + real 0 * fe_speed e0"
    using x0 y0 by simp_all
  then have "\<exists>i j. enemy_x e0 = home_left e0 + real i * fe_speed e0
              \<and> enemy_y e0 = home_top e0 + real j * fe_speed e0"
    by blast
  then show ?case using s x0 y0 w h by simp
next
  case (Suc n)
  let ?e = "(FencingEnemy_state ^^ n) e0"
  from Suc obtain i j where
    g: "enemy_x ?e = home_left ?e + real i * fe_speed ?e"
       "enemy_y ?e = home_top ?e + real j * fe_speed ?e"
    by auto
  have b: "0 < fe_speed ?e" "enemy_x ?e < home_right ?e + fe_speed ?e"
    "enemy_y ?e < home_bottom ?e + fe_speed ?e"
    using Suc s by simp_all
  from fencing_grid_step [OF b(1) g b(2) b(3)] fencing_state_frame [of ?e] Suc
  show ?case by simp
qed

lemma fence_down_run:
  "fe_state e = Fence_down \<Longrightarrow> 0 < fe_speed e
    \<Longrightarrow> enemy_y e + real n * fe_speed e < home_bottom e + fe_speed e
    \<Longrightarrow> (FencingEnemy_state ^^ n) e = e\<lparr>enemy_y := enemy_y e + real n * fe_speed e\<rparr>"
proof (induction n)
  case 0
  then show ?case by simp
next
  case (Suc n)
  then have lt: "enemy_y e + real n * fe_speed e < home_bottom e"
    by (simp add: algebra_simps)
  with Suc have ih: "(FencingEnemy_state ^^ n) e = e\<lparr>enemy_y := enemy_y e + real n * fe_speed e\<rparr>"
    by simp
  have "(FencingEnemy_state ^^ Suc n) e = FencingEnemy_state ((FencingEnemy_state ^^ n) e)"
    by simp
  also have "\<dots> = FencingEnemy_state (e\<lparr>enemy_y := enemy_y e + real n * fe_speed e\<rparr>)"
    by (simp only: ih)
  also have "\<dots> = e\<lparr>enemy_y := enemy_y e + real (Suc n) * fe_speed e\<rparr>"
    using Suc.prems(1) lt
    by (simp add: FencingEnemy_state_def FencingEnemy_down_def algebra_simps)
  finally show ?case .
qed

lemma create_enemy_fencing:
  assumes "fst (choice enemy_dict uk) = FencingEnemy"
  shows "create_enemy uk ux uy us g
     = Some (register_and_reschedule
         (EFencing ((FencingEnemy_init g 20 ''green'' (gen_speed (enemy_generator g)))
            \<lparr>enemy_x := hm_x (home g) - (hm_size (home g) / 2) - 20,
             enemy_y := hm_y (home g) - (hm_size (home g) / 2) - 20\<rparr>)) g)"
proof -
  have "uk mod 4 < 4" by simp
  then consider "uk mod 4 = 0" | "uk mod 4 = 1" | "uk mod 4 = 2" | "uk mod 4 = 3"
    by linarith
  then have "choice enemy_dict uk = (FencingEnemy, ''home'', ''green'')"
    using assms by cases (simp_all add: choice_def enemy_dict_def)
  then show ?thesis by (simp add: create_enemy_def)
qed

lemma register_and_reschedule_last:
  "register_and_reschedule (EFencing e) g = (err, g')
    \<Longrightarrow> elements g' = elements g @ [EFencing (e\<lparr>fe_id := Some (next_id (canvas g))\<rparr>)]"
  by (auto simp: register_and_reschedule_def add_element_def FencingEnemy_create_def Let_def
        canvas_call_def after_def split: sum.splits)


lemma spawned_patroller_bounds:
  assumes c: "create_enemy uk ux uy us g = Some (err, g')"
    and k: "fst (choice enemy_dict uk) = FencingEnemy"
    and s: "0 < gen_speed (enemy_generator g)"
    and h: "- 40 \<le> hm_size (home g)"
  shows "\<exists>e0. last (elements g') = EFencing e0
           \<and> fe_state e0 = Fence_down
           \<and> fe_speed e0 = real_of_int (gen_speed (enemy_generator g)) / 4
           \<and> enemy_x e0 = home_left e0 \<and> enemy_y e0 = home_top e0
           \<and> home_left e0 = hm_x (home g) - hm_size (home g) / 2 - 20
           \<and> home_right e0 = hm_x (home g) + hm_size (home g) / 2 + 20
           \<and> home_top e0 = hm_y (home g) - hm_size (home g) / 2 - 20
           \<and> home_bottom e0 = hm_y (home g) + hm_size (home g) / 2 + 20
           \<and> (\<forall>n. (fe_state ((FencingEnemy_state ^^ Suc n) e0)
                        = fe_state ((FencingEnemy_state ^^ n) e0)
                      \<or> fe_state ((FencingEnemy_state ^^ Suc n) e0)
                        = next_fence_state (fe_state ((FencingEnemy_state ^^ n) e0)))
                  \<and> home_left e0 \<le> enemy_x ((FencingEnemy_state ^^ n) e0)
                  \<and> enemy_x ((FencingEnemy_state ^^ n) e0) < home_right e0 + fe_speed e0
                  \<and> home_top e0 \<le> enemy_y ((FencingEnemy_state ^^ n) e0)
                  \<and> enemy_y ((FencingEnemy_state ^^ n) e0) < home_bottom e0 + fe_speed e0)"
proof -
  define e0 where "e0 = (FencingEnemy_init g 20 ''green'' (gen_speed (enemy_generator g)))
            \<lparr>enemy_x := hm_x (home g) - (hm_size (home g) / 2) - 20,
             enemy_y := hm_y (home g) - (hm_size (home g) / 2) - 20,
             fe_id := Some (next_id (canvas g))\<rparr>"
  from c create_enemy_fencing [OF k, of ux uy us g]
  have "register_and_reschedule
         (EFencing ((FencingEnemy_init g 20 ''green'' (gen_speed (enemy_generator g)))
            \<lparr>enemy_x := hm_x (home g) - (hm_size (home g) / 2) - 20,
             enemy_y := hm_y (home g) - (hm_size (home g) / 2) - 20\<rparr>)) g = (err, g')"
    by simp
  from register_and_reschedule_last [OF this]
  have l: "last (elements g') = EFencing e0" by (simp add: e0_def)
  have f: "fe_state e0 = Fence_down"
    "fe_speed e0 = real_of_int (gen_speed (enemy_generator g)) / 4"
    "enemy_x e0 = home_left e0" "enemy_y e0 = home_top e0"
    "home_left e0 = hm_x (home g) - hm_size (home g) / 2 - 20"
    "home_right e0 = hm_x (home g) + hm_size (home g) / 2 + 20"
    "home_top e0 = hm_y (home g) - hm_size (home g) / 2 - 20"
    "home_bottom e0 = hm_y (home g) + hm_size (home g) / 2 + 20"
    by (simp_all add: e0_def FencingEnemy_init_def)
  have sp: "0 < fe_speed e0" using s f(2) by simp
  have wd: "home_left e0 \<le> home_right e0" "home_top e0 \<le> home_bottom e0"
    using h f by simp_all
  have run: "(fe_state ((FencingEnemy_state ^^ Suc n) e0)
                        = fe_state ((FencingEnemy_state ^^ n) e0)
                      \<or> fe_state ((FencingEnemy_state ^^ Suc n) e0)
                        = next_fence_state (fe_state ((FencingEnemy_state ^^ n) e0)))
                  \<and> home_left e0 \<le> enemy_x ((FencingEnemy_state ^^ n) e0)
                  \<and> enemy_x ((FencingEnemy_state ^^ n) e0) < home_right e0 + fe_speed e0
                  \<and> home_top e0 \<le> enemy_y ((FencingEnemy_state ^^ n) e0)
                  \<and> enemy_y ((FencingEnemy_state ^^ n) e0) < home_bottom e0 + fe_speed e0" for n
  proof -
    from fencing_grid_run [OF sp f(3) f(4) wd, of n] obtain i j where
      g: "enemy_x ((FencingEnemy_state ^^ n) e0) = home_left e0 + real i * fe_speed e0"
         "enemy_y ((FencingEnemy_state ^^ n) e0) = home_top e0 + real j * fe_speed e0"
      and b: "enemy_x ((FencingEnemy_state ^^ n) e0) < home_right e0 + fe_speed e0"
         "enemy_y ((FencingEnemy_state ^^ n) e0) < home_bottom e0 + fe_speed e0"
      by auto
    have "0 \<le> real i * fe_speed e0" "0 \<le> real j * fe_speed e0" using sp by simp_all
    with g have "home_left e0 \<le> enemy_x ((FencingEnemy_state ^^ n) e0)"
      "home_top e0 \<le> enemy_y ((FencingEnemy_state ^^ n) e0)"
      by simp_all
    with b fencing_state_cyclic [of "(FencingEnemy_state ^^ n) e0"] show ?thesis by simp
  qed
  from l f run show ?thesis by blast
qed

text \<open>
  C6, amended. A patroller that the scheduler spawns in a reachable game of a level of
  at least 1 starts in the state down at the upper left corner of the rectangle that
  lies 20 units outside Home's edges (Home's size is 20, so the rectangle's edges are
  30 from Home's centre). Every tick either keeps its state or takes it to the next one
  of the cycle down, right, up, left, down. In every state that it reaches its position
  is not left of and not above the rectangle, and exceeds the right and the bottom edge
  by less than one step, the patroller's speed, three quarters of the level.
\<close>

theorem patroller_cycle_and_bounds:
  assumes r: "reachable g" and tm: "timers g = d # ds"
    and c: "create_enemy uk ux uy us (g\<lparr>timers := ds\<rparr>) = Some (err, g')"
    and k: "fst (choice enemy_dict uk) = FencingEnemy"
    and lv: "0 < level g"
  shows "reachable g'
       \<and> (\<exists>e0. last (elements g') = EFencing e0
           \<and> fe_state e0 = Fence_down
           \<and> fe_speed e0 = real_of_int (level g * 3) / 4
           \<and> enemy_x e0 = home_left e0 \<and> enemy_y e0 = home_top e0
           \<and> home_left e0 = hm_x (home g) - 30
           \<and> home_right e0 = hm_x (home g) + 30
           \<and> home_top e0 = hm_y (home g) - 30
           \<and> home_bottom e0 = hm_y (home g) + 30
           \<and> (\<forall>n. (fe_state ((FencingEnemy_state ^^ Suc n) e0)
                        = fe_state ((FencingEnemy_state ^^ n) e0)
                      \<or> fe_state ((FencingEnemy_state ^^ Suc n) e0)
                        = next_fence_state (fe_state ((FencingEnemy_state ^^ n) e0)))
                  \<and> home_left e0 \<le> enemy_x ((FencingEnemy_state ^^ n) e0)
                  \<and> enemy_x ((FencingEnemy_state ^^ n) e0) < home_right e0 + fe_speed e0
                  \<and> home_top e0 \<le> enemy_y ((FencingEnemy_state ^^ n) e0)
                  \<and> enemy_y ((FencingEnemy_state ^^ n) e0) < home_bottom e0 + fe_speed e0))"
proof -
  from reachable_home_and_speed [OF r]
  have hs: "hm_size (home g) = 20" and gs: "gen_speed (enemy_generator g) = level g * 3"
    by simp_all
  have s: "0 < gen_speed (enemy_generator (g\<lparr>timers := ds\<rparr>))"
    and h: "- 40 \<le> hm_size (home (g\<lparr>timers := ds\<rparr>))"
    using hs gs lv by simp_all
  have r': "reachable g'" by (rule reachable_fire [OF r tm c])
  from spawned_patroller_bounds [OF c k s h] obtain e0 where
    l: "last (elements g') = EFencing e0"
    and f: "fe_state e0 = Fence_down"
      "fe_speed e0 = real_of_int (gen_speed (enemy_generator (g\<lparr>timers := ds\<rparr>))) / 4"
      "enemy_x e0 = home_left e0" "enemy_y e0 = home_top e0"
      "home_left e0 = hm_x (home (g\<lparr>timers := ds\<rparr>))
                        - hm_size (home (g\<lparr>timers := ds\<rparr>)) / 2 - 20"
      "home_right e0 = hm_x (home (g\<lparr>timers := ds\<rparr>))
                        + hm_size (home (g\<lparr>timers := ds\<rparr>)) / 2 + 20"
      "home_top e0 = hm_y (home (g\<lparr>timers := ds\<rparr>))
                        - hm_size (home (g\<lparr>timers := ds\<rparr>)) / 2 - 20"
      "home_bottom e0 = hm_y (home (g\<lparr>timers := ds\<rparr>))
                        + hm_size (home (g\<lparr>timers := ds\<rparr>)) / 2 + 20"
    and run: "\<forall>n. (fe_state ((FencingEnemy_state ^^ Suc n) e0)
                        = fe_state ((FencingEnemy_state ^^ n) e0)
                      \<or> fe_state ((FencingEnemy_state ^^ Suc n) e0)
                        = next_fence_state (fe_state ((FencingEnemy_state ^^ n) e0)))
                  \<and> home_left e0 \<le> enemy_x ((FencingEnemy_state ^^ n) e0)
                  \<and> enemy_x ((FencingEnemy_state ^^ n) e0) < home_right e0 + fe_speed e0
                  \<and> home_top e0 \<le> enemy_y ((FencingEnemy_state ^^ n) e0)
                  \<and> enemy_y ((FencingEnemy_state ^^ n) e0) < home_bottom e0 + fe_speed e0"
    by blast
  have f': "fe_speed e0 = real_of_int (level g * 3) / 4"
    "home_left e0 = hm_x (home g) - 30" "home_right e0 = hm_x (home g) + 30"
    "home_top e0 = hm_y (home g) - 30" "home_bottom e0 = hm_y (home g) + 30"
    using f hs gs by simp_all
  from l f(1) f'(1) f(3) f(4) f'(2) f'(3) f'(4) f'(5) run
  have "\<exists>e0. last (elements g') = EFencing e0
           \<and> fe_state e0 = Fence_down
           \<and> fe_speed e0 = real_of_int (level g * 3) / 4
           \<and> enemy_x e0 = home_left e0 \<and> enemy_y e0 = home_top e0
           \<and> home_left e0 = hm_x (home g) - 30
           \<and> home_right e0 = hm_x (home g) + 30
           \<and> home_top e0 = hm_y (home g) - 30
           \<and> home_bottom e0 = hm_y (home g) + 30
           \<and> (\<forall>n. (fe_state ((FencingEnemy_state ^^ Suc n) e0)
                        = fe_state ((FencingEnemy_state ^^ n) e0)
                      \<or> fe_state ((FencingEnemy_state ^^ Suc n) e0)
                        = next_fence_state (fe_state ((FencingEnemy_state ^^ n) e0)))
                  \<and> home_left e0 \<le> enemy_x ((FencingEnemy_state ^^ n) e0)
                  \<and> enemy_x ((FencingEnemy_state ^^ n) e0) < home_right e0 + fe_speed e0
                  \<and> home_top e0 \<le> enemy_y ((FencingEnemy_state ^^ n) e0)
                  \<and> enemy_y ((FencingEnemy_state ^^ n) e0) < home_bottom e0 + fe_speed e0)"
    by blast
  with r' show ?thesis by (rule conjI)
qed

text \<open>
  The patroller that the first firing spawns in the game of level 1 on an 800 by 500
  screen: Home is the square of edge 20 around (700, 250), the rectangle reaches from
  670 to 730 and from 220 to 280, and a step is 3/4.
\<close>

theorem patroller_cycle_and_bounds_witness:
  "reachable (init_game (TurtleAdventureGame_init 800 500 1))
   \<and> timers (init_game (TurtleAdventureGame_init 800 500 1)) = 100 # []
   \<and> create_enemy 2 0 0 [] ((init_game (TurtleAdventureGame_init 800 500 1))\<lparr>timers := []\<rparr>)
   = Some (None,
       (init_game (TurtleAdventureGame_init 800 500 1))
         \<lparr>elements := [EWaypoint, EHome, EPlayer,
                        EFencing ((FencingEnemy_init (init_game (TurtleAdventureGame_init 800 500 1))
                                     20 ''green'' 3)\<lparr>enemy_x := 670, enemy_y := 220,
                                                       fe_id := Some 4\<rparr>)],
          canvas := [Create_line ''green'', Create_line ''green'', Create_rectangle ''brown'',
                     Create_oval ''green''],
          timers := [4000]\<rparr>)
   \<and> fst (choice enemy_dict 2) = FencingEnemy
   \<and> 0 < level (init_game (TurtleAdventureGame_init 800 500 1))
   \<and> (\<forall>n. 670 \<le> enemy_x ((FencingEnemy_state ^^ n)
                   ((FencingEnemy_init (init_game (TurtleAdventureGame_init 800 500 1))
                       20 ''green'' 3)\<lparr>enemy_x := 670, enemy_y := 220, fe_id := Some 4\<rparr>))
          \<and> enemy_x ((FencingEnemy_state ^^ n)
                   ((FencingEnemy_init (init_game (TurtleAdventureGame_init 800 500 1))
                       20 ''green'' 3)\<lparr>enemy_x := 670, enemy_y := 220, fe_id := Some 4\<rparr>))
              < 730 + 3 / 4
          \<and> 220 \<le> enemy_y ((FencingEnemy_state ^^ n)
                   ((FencingEnemy_init (init_game (TurtleAdventureGame_init 800 500 1))
                       20 ''green'' 3)\<lparr>enemy_x := 670, enemy_y := 220, fe_id := Some 4\<rparr>))
          \<and> enemy_y ((FencingEnemy_state ^^ n)
                   ((FencingEnemy_init (init_game (TurtleAdventureGame_init 800 500 1))
                       20 ''green'' 3)\<lparr>enemy_x := 670, enemy_y := 220, fe_id := Some 4\<rparr>))
              < 280 + 3 / 4)"
proof -
  have t: "timers (init_game (TurtleAdventureGame_init 800 500 1)) = 100 # []"
    and lv: "0 < level (init_game (TurtleAdventureGame_init 800 500 1))"
    by (simp_all add: init_game_eq)
  have k: "fst (choice enemy_dict 2) = FencingEnemy"
    by (simp add: choice_def enemy_dict_def)
  from patroller_cycle_and_bounds [OF reachable_init t create_enemy_fencing_level1 k lv]
  obtain e0 where e0: "EFencing ((FencingEnemy_init (init_game (TurtleAdventureGame_init 800 500 1))
                                     20 ''green'' 3)\<lparr>enemy_x := 670, enemy_y := 220,
                                                       fe_id := Some 4\<rparr>) = EFencing e0"
    and b: "\<And>n. home_left e0 \<le> enemy_x ((FencingEnemy_state ^^ n) e0)
                  \<and> enemy_x ((FencingEnemy_state ^^ n) e0) < home_right e0 + fe_speed e0
                  \<and> home_top e0 \<le> enemy_y ((FencingEnemy_state ^^ n) e0)
                  \<and> enemy_y ((FencingEnemy_state ^^ n) e0) < home_bottom e0 + fe_speed e0"
    by auto
  from e0 have eq: "e0 = (FencingEnemy_init (init_game (TurtleAdventureGame_init 800 500 1))
                                     20 ''green'' 3)\<lparr>enemy_x := 670, enemy_y := 220,
                                                       fe_id := Some 4\<rparr>"
    by simp
  have f: "home_left e0 = 670" "home_right e0 = 730" "home_top e0 = 220" "home_bottom e0 = 280"
    "fe_speed e0 = 3 / 4"
    by (simp_all add: eq FencingEnemy_init_def init_game_eq)
  from b f have "\<And>n. 670 \<le> enemy_x ((FencingEnemy_state ^^ n) e0)
                  \<and> enemy_x ((FencingEnemy_state ^^ n) e0) < 730 + 3 / 4
                  \<and> 220 \<le> enemy_y ((FencingEnemy_state ^^ n) e0)
                  \<and> enemy_y ((FencingEnemy_state ^^ n) e0) < 280 + 3 / 4"
    by simp
  then show ?thesis
    using create_enemy_fencing_level1 k t lv reachable_init [of 800 500 1] unfolding eq by blast
qed

text \<open>
  C6 as stated fails. In the game of level 3 on an 800 by 500 screen the rectangle is
  the same, Home's edges (690 to 710, 240 to 260) moved outward by 20, and the spawned
  patroller's step is 9/4. It starts at (670, 220) and moves down; 60 is not a multiple
  of 9/4, and after 27 ticks it is at y = 280.75, below the bottom edge 280.
\<close>

theorem patroller_beyond_bottom_edge_at_level_3:
  "create_enemy 2 0 0 [] ((init_game (TurtleAdventureGame_init 800 500 3))\<lparr>timers := []\<rparr>)
   = Some (None,
       (init_game (TurtleAdventureGame_init 800 500 3))
         \<lparr>elements := [EWaypoint, EHome, EPlayer,
                        EFencing \<lparr>enemy_x = 670, enemy_y = 220, enemy_size = 20,
                                  enemy_color = ''green'', fe_id = Some 4, fe_color2 = ''green'',
                                  fe_state = Fence_down, fe_speed = 9 / 4, home_top = 220,
                                  home_bottom = 280, home_left = 670, home_right = 730\<rparr>],
          canvas := [Create_line ''green'', Create_line ''green'', Create_rectangle ''brown'',
                     Create_oval ''green''],
          timers := [1333]\<rparr>)
   \<and> (FencingEnemy_state ^^ 27)
        \<lparr>enemy_x = 670, enemy_y = 220, enemy_size = 20,
         enemy_color = ''green'', fe_id = Some 4, fe_color2 = ''green'',
         fe_state = Fence_down, fe_speed = 9 / 4, home_top = 220,
         home_bottom = 280, home_left = 670, home_right = 730\<rparr>
     = \<lparr>enemy_x = 670, enemy_y = 280 + 3 / 4, enemy_size = 20,
         enemy_color = ''green'', fe_id = Some 4, fe_color2 = ''green'',
         fe_state = Fence_down, fe_speed = 9 / 4, home_top = 220,
         home_bottom = 280, home_left = 670, home_right = 730\<rparr>"
proof -
  have c: "create_enemy 2 0 0 [] ((init_game (TurtleAdventureGame_init 800 500 3))\<lparr>timers := []\<rparr>)
   = Some (None,
       (init_game (TurtleAdventureGame_init 800 500 3))
         \<lparr>elements := [EWaypoint, EHome, EPlayer,
                        EFencing \<lparr>enemy_x = 670, enemy_y = 220, enemy_size = 20,
                                  enemy_color = ''green'', fe_id = Some 4, fe_color2 = ''green'',
                                  fe_state = Fence_down, fe_speed = 9 / 4, home_top = 220,
                                  home_bottom = 280, home_left = 670, home_right = 730\<rparr>],
          canvas := [Create_line ''green'', Create_line ''green'', Create_rectangle ''brown'',
                     Create_oval ''green''],
          timers := [1333]\<rparr>)"
    by (simp add: create_enemy_def choice_def enemy_dict_def init_game_eq FencingEnemy_init_def
        register_and_reschedule_def add_element_def FencingEnemy_create_def canvas_call_def
        next_id_def int_truediv_def after_def Let_def)
  have r: "(FencingEnemy_state ^^ 27)
        \<lparr>enemy_x = 670, enemy_y = 220, enemy_size = 20,
         enemy_color = ''green'', fe_id = Some 4, fe_color2 = ''green'',
         fe_state = Fence_down, fe_speed = 9 / 4, home_top = 220,
         home_bottom = 280, home_left = 670, home_right = 730\<rparr>
     = \<lparr>enemy_x = 670, enemy_y = 280 + 3 / 4, enemy_size = 20,
         enemy_color = ''green'', fe_id = Some 4, fe_color2 = ''green'',
         fe_state = Fence_down, fe_speed = 9 / 4, home_top = 220,
         home_bottom = 280, home_left = 670, home_right = 730\<rparr>"
    using fence_down_run [of "\<lparr>enemy_x = 670, enemy_y = 220, enemy_size = 20,
         enemy_color = ''green'', fe_id = Some 4, fe_color2 = ''green'',
         fe_state = Fence_down, fe_speed = 9 / 4, home_top = 220,
         home_bottom = 280, home_left = 670, home_right = 730\<rparr>" 27]
    by simp
  from c r show ?thesis by (rule conjI)
qed

section \<open>The chaser\<close>

lemma chasing_update_axes:
  "enemy_x (fst (ChasingEnemy_update e g)) = enemy_x (ChasingEnemy_xstate e g)
   \<and> ch_xstate (fst (ChasingEnemy_update e g)) = ch_xstate (ChasingEnemy_xstate e g)
   \<and> enemy_y (fst (ChasingEnemy_update e g)) = enemy_y (ChasingEnemy_ystate e g)
   \<and> ch_ystate (fst (ChasingEnemy_update e g)) = ch_ystate (ChasingEnemy_ystate e g)
   \<and> ch_speed (fst (ChasingEnemy_update e g)) = ch_speed e"
  by (cases "ch_xstate e"; cases "ch_ystate e")
     (simp_all add: ChasingEnemy_update_def Let_def ChasingEnemy_xstate_def
        ChasingEnemy_ystate_def ChasingEnemy_left_def ChasingEnemy_right_def
        ChasingEnemy_up_def ChasingEnemy_down_def)

lemma chasing_xstate_step:
  assumes "0 \<le> ch_speed e"
  shows "(approaching_x e g \<longrightarrow>
            ch_xstate (ChasingEnemy_xstate e g) = ch_xstate e
            \<and> \<bar>enemy_x (ChasingEnemy_xstate e g) - player_x g\<bar>
                = \<bar>\<bar>enemy_x e - player_x g\<bar> - ch_speed e\<bar>)
       \<and> (ch_xstate (ChasingEnemy_xstate e g) \<noteq> ch_xstate e \<longleftrightarrow> \<not> approaching_x e g)
       \<and> (\<not> approaching_x e g \<longrightarrow> enemy_x (ChasingEnemy_xstate e g) = enemy_x e)"
  using assms
  by (cases "ch_xstate e")
     (auto simp: approaching_x_def ChasingEnemy_xstate_def ChasingEnemy_left_def
        ChasingEnemy_right_def)

lemma chasing_ystate_step:
  assumes "0 \<le> ch_speed e"
  shows "(approaching_y e g \<longrightarrow>
            ch_ystate (ChasingEnemy_ystate e g) = ch_ystate e
            \<and> \<bar>enemy_y (ChasingEnemy_ystate e g) - player_y g\<bar>
                = \<bar>\<bar>enemy_y e - player_y g\<bar> - ch_speed e\<bar>)
       \<and> (ch_ystate (ChasingEnemy_ystate e g) \<noteq> ch_ystate e \<longleftrightarrow> \<not> approaching_y e g)
       \<and> (\<not> approaching_y e g \<longrightarrow> enemy_y (ChasingEnemy_ystate e g) = enemy_y e)"
  using assms
  by (cases "ch_ystate e")
     (auto simp: approaching_y_def ChasingEnemy_ystate_def ChasingEnemy_up_def
        ChasingEnemy_down_def)

lemma abs_step_le: "(s::real) / 2 \<le> d \<Longrightarrow> 0 \<le> s \<Longrightarrow> \<bar>d - s\<bar> \<le> d"
  by linarith

lemma abs_step_gt: "(d::real) < s / 2 \<Longrightarrow> d < \<bar>d - s\<bar>"
  by linarith

text \<open>
  C7, amended. In a tick that finds a chaser of speed \<open>s \<ge> 0\<close> in the approaching half
  of its x-state, at the distance \<open>d\<close> from the player's x of that tick, the chaser keeps
  its x-state and takes one step of the fixed length \<open>s\<close> towards the player, which
  leaves it at the distance \<open>|d - s|\<close>: not more than \<open>d\<close> when \<open>d\<close> is at least half a
  step, and otherwise more than \<open>d\<close>, the step carrying the chaser across the player's
  x. The x-state flips exactly in a tick that finds the chaser outside the approaching
  half, strictly past the player's x in the direction of its state, and that tick
  leaves x as it is. The same holds of the y-axis.
\<close>

theorem chaser_step_towards_player:
  assumes s: "0 \<le> ch_speed e" and e': "e' = fst (ChasingEnemy_update e g)"
  shows "(approaching_x e g \<longrightarrow>
            ch_xstate e' = ch_xstate e
            \<and> \<bar>enemy_x e' - player_x g\<bar> = \<bar>\<bar>enemy_x e - player_x g\<bar> - ch_speed e\<bar>)
       \<and> (approaching_x e g \<and> ch_speed e / 2 \<le> \<bar>enemy_x e - player_x g\<bar> \<longrightarrow>
            \<bar>enemy_x e' - player_x g\<bar> \<le> \<bar>enemy_x e - player_x g\<bar>)
       \<and> (approaching_x e g \<and> \<bar>enemy_x e - player_x g\<bar> < ch_speed e / 2 \<longrightarrow>
            \<bar>enemy_x e - player_x g\<bar> < \<bar>enemy_x e' - player_x g\<bar>)
       \<and> (ch_xstate e' \<noteq> ch_xstate e \<longleftrightarrow> \<not> approaching_x e g)
       \<and> (\<not> approaching_x e g \<longrightarrow> enemy_x e' = enemy_x e)
       \<and> (approaching_y e g \<longrightarrow>
            ch_ystate e' = ch_ystate e
            \<and> \<bar>enemy_y e' - player_y g\<bar> = \<bar>\<bar>enemy_y e - player_y g\<bar> - ch_speed e\<bar>)
       \<and> (approaching_y e g \<and> ch_speed e / 2 \<le> \<bar>enemy_y e - player_y g\<bar> \<longrightarrow>
            \<bar>enemy_y e' - player_y g\<bar> \<le> \<bar>enemy_y e - player_y g\<bar>)
       \<and> (approaching_y e g \<and> \<bar>enemy_y e - player_y g\<bar> < ch_speed e / 2 \<longrightarrow>
            \<bar>enemy_y e - player_y g\<bar> < \<bar>enemy_y e' - player_y g\<bar>)
       \<and> (ch_ystate e' \<noteq> ch_ystate e \<longleftrightarrow> \<not> approaching_y e g)
       \<and> (\<not> approaching_y e g \<longrightarrow> enemy_y e' = enemy_y e)"
proof -
  note ax = chasing_update_axes [of e g, folded e']
  have x: "(approaching_x e g \<longrightarrow>
            ch_xstate e' = ch_xstate e
            \<and> \<bar>enemy_x e' - player_x g\<bar> = \<bar>\<bar>enemy_x e - player_x g\<bar> - ch_speed e\<bar>)
       \<and> (ch_xstate e' \<noteq> ch_xstate e \<longleftrightarrow> \<not> approaching_x e g)
       \<and> (\<not> approaching_x e g \<longrightarrow> enemy_x e' = enemy_x e)"
    using chasing_xstate_step [OF s, of g] ax by simp
  have y: "(approaching_y e g \<longrightarrow>
            ch_ystate e' = ch_ystate e
            \<and> \<bar>enemy_y e' - player_y g\<bar> = \<bar>\<bar>enemy_y e - player_y g\<bar> - ch_speed e\<bar>)
       \<and> (ch_ystate e' \<noteq> ch_ystate e \<longleftrightarrow> \<not> approaching_y e g)
       \<and> (\<not> approaching_y e g \<longrightarrow> enemy_y e' = enemy_y e)"
    using chasing_ystate_step [OF s, of g] ax by simp
  have mx: "approaching_x e g \<and> ch_speed e / 2 \<le> \<bar>enemy_x e - player_x g\<bar> \<longrightarrow>
            \<bar>enemy_x e' - player_x g\<bar> \<le> \<bar>enemy_x e - player_x g\<bar>"
    using x abs_step_le [of "ch_speed e" "\<bar>enemy_x e - player_x g\<bar>"] s by simp
  have my: "approaching_y e g \<and> ch_speed e / 2 \<le> \<bar>enemy_y e - player_y g\<bar> \<longrightarrow>
            \<bar>enemy_y e' - player_y g\<bar> \<le> \<bar>enemy_y e - player_y g\<bar>"
    using y abs_step_le [of "ch_speed e" "\<bar>enemy_y e - player_y g\<bar>"] s by simp
  have gx: "approaching_x e g \<and> \<bar>enemy_x e - player_x g\<bar> < ch_speed e / 2 \<longrightarrow>
            \<bar>enemy_x e - player_x g\<bar> < \<bar>enemy_x e' - player_x g\<bar>"
    using x abs_step_gt [of "\<bar>enemy_x e - player_x g\<bar>" "ch_speed e"] by simp
  have gy: "approaching_y e g \<and> \<bar>enemy_y e - player_y g\<bar> < ch_speed e / 2 \<longrightarrow>
            \<bar>enemy_y e - player_y g\<bar> < \<bar>enemy_y e' - player_y g\<bar>"
    using y abs_step_gt [of "\<bar>enemy_y e - player_y g\<bar>" "ch_speed e"] by simp
  from x y mx my gx gy show ?thesis by blast
qed

text \<open>
  A chaser of level 1 (speed 1) at (40, 400), moving right and up, and the player at
  (50, 250): the chaser steps to (41, 399).
\<close>

theorem chaser_step_towards_player_witness:
  "0 \<le> ch_speed ((ChasingEnemy_init 20 ''red'' 3)\<lparr>enemy_x := 40, enemy_y := 400\<rparr>)
   \<and> fst (ChasingEnemy_update ((ChasingEnemy_init 20 ''red'' 3)\<lparr>enemy_x := 40, enemy_y := 400\<rparr>)
            (init_game (TurtleAdventureGame_init 800 500 1)))
     = (ChasingEnemy_init 20 ''red'' 3)\<lparr>enemy_x := 41, enemy_y := 399\<rparr>
   \<and> approaching_x ((ChasingEnemy_init 20 ''red'' 3)\<lparr>enemy_x := 40, enemy_y := 400\<rparr>)
        (init_game (TurtleAdventureGame_init 800 500 1))
   \<and> ch_speed ((ChasingEnemy_init 20 ''red'' 3)\<lparr>enemy_x := 40, enemy_y := 400\<rparr>) / 2
       \<le> \<bar>enemy_x ((ChasingEnemy_init 20 ''red'' 3)\<lparr>enemy_x := 40, enemy_y := 400\<rparr>)
           - player_x (init_game (TurtleAdventureGame_init 800 500 1))\<bar>
   \<and> \<bar>enemy_x ((ChasingEnemy_init 20 ''red'' 3)\<lparr>enemy_x := 41, enemy_y := 399\<rparr>)
           - player_x (init_game (TurtleAdventureGame_init 800 500 1))\<bar>
       \<le> \<bar>enemy_x ((ChasingEnemy_init 20 ''red'' 3)\<lparr>enemy_x := 40, enemy_y := 400\<rparr>)
           - player_x (init_game (TurtleAdventureGame_init 800 500 1))\<bar>"
proof -
  have s: "0 \<le> ch_speed ((ChasingEnemy_init 20 ''red'' 3)\<lparr>enemy_x := 40, enemy_y := 400\<rparr>)"
    by (simp add: ChasingEnemy_init_def)
  have u: "(ChasingEnemy_init 20 ''red'' 3)\<lparr>enemy_x := 41, enemy_y := 399\<rparr>
     = fst (ChasingEnemy_update ((ChasingEnemy_init 20 ''red'' 3)\<lparr>enemy_x := 40, enemy_y := 400\<rparr>)
            (init_game (TurtleAdventureGame_init 800 500 1)))"
    by (simp add: ChasingEnemy_update_def Let_def ChasingEnemy_xstate_def
        ChasingEnemy_ystate_def ChasingEnemy_right_def ChasingEnemy_up_def ChasingEnemy_init_def
        init_game_eq player_x_def player_y_def xcor_def ycor_def)
  have a: "approaching_x ((ChasingEnemy_init 20 ''red'' 3)\<lparr>enemy_x := 40, enemy_y := 400\<rparr>)
        (init_game (TurtleAdventureGame_init 800 500 1))"
    by (simp add: approaching_x_def ChasingEnemy_init_def init_game_eq player_x_def xcor_def)
  have d: "ch_speed ((ChasingEnemy_init 20 ''red'' 3)\<lparr>enemy_x := 40, enemy_y := 400\<rparr>) / 2
       \<le> \<bar>enemy_x ((ChasingEnemy_init 20 ''red'' 3)\<lparr>enemy_x := 40, enemy_y := 400\<rparr>)
           - player_x (init_game (TurtleAdventureGame_init 800 500 1))\<bar>"
    by (simp add: ChasingEnemy_init_def init_game_eq player_x_def xcor_def)
  from chaser_step_towards_player [OF s u] a d s u show ?thesis by simp
qed

lemma chase_right_up_step:
  "ch_xstate e = Chase_right \<Longrightarrow> ch_ystate e = Chase_up \<Longrightarrow> enemy_x e \<le> player_x g
    \<Longrightarrow> player_y g \<le> enemy_y e
    \<Longrightarrow> fst (ChasingEnemy_update e g)
        = e\<lparr>enemy_x := enemy_x e + ch_speed e, enemy_y := enemy_y e + - ch_speed e\<rparr>"
  by (simp add: ChasingEnemy_update_def Let_def ChasingEnemy_xstate_def ChasingEnemy_ystate_def
        ChasingEnemy_right_def ChasingEnemy_up_def)

lemma chase_right_up_run:
  "ch_xstate e = Chase_right \<Longrightarrow> ch_ystate e = Chase_up \<Longrightarrow> 0 < ch_speed e
    \<Longrightarrow> enemy_x e + real n * ch_speed e \<le> player_x g + ch_speed e
    \<Longrightarrow> player_y g - ch_speed e \<le> enemy_y e - real n * ch_speed e
    \<Longrightarrow> ChasingEnemy_updates n e g
        = e\<lparr>enemy_x := enemy_x e + real n * ch_speed e,
            enemy_y := enemy_y e - real n * ch_speed e\<rparr>"
proof (induction n)
  case 0
  then show ?case by simp
next
  case (Suc n)
  then have lx: "enemy_x e + real n * ch_speed e \<le> player_x g"
    and ly: "player_y g \<le> enemy_y e - real n * ch_speed e"
    by (simp_all add: algebra_simps)
  with Suc have ih: "ChasingEnemy_updates n e g
        = e\<lparr>enemy_x := enemy_x e + real n * ch_speed e,
            enemy_y := enemy_y e - real n * ch_speed e\<rparr>"
    by simp
  have "ChasingEnemy_updates (Suc n) e g
      = fst (ChasingEnemy_update
               (e\<lparr>enemy_x := enemy_x e + real n * ch_speed e,
                  enemy_y := enemy_y e - real n * ch_speed e\<rparr>) g)"
    by (simp only: ChasingEnemy_updates.simps ih)
  also have "\<dots> = e\<lparr>enemy_x := enemy_x e + real (Suc n) * ch_speed e,
                      enemy_y := enemy_y e - real (Suc n) * ch_speed e\<rparr>"
    using Suc.prems(1,2) lx ly
    by (simp add: chase_right_up_step algebra_simps)
  finally show ?case .
qed

lemma create_enemy_chaser_level1:
  "create_enemy 1 40 400 [] ((init_game (TurtleAdventureGame_init 800 500 1))\<lparr>timers := []\<rparr>)
   = Some (None,
       (init_game (TurtleAdventureGame_init 800 500 1))
         \<lparr>elements := [EWaypoint, EHome, EPlayer,
                        EChasing ((ChasingEnemy_init 20 ''red'' 3)
                                    \<lparr>enemy_x := 40, enemy_y := 400, ch_id := Some 4\<rparr>)],
          canvas := [Create_line ''green'', Create_line ''green'', Create_rectangle ''brown'',
                     Create_oval ''red''],
          timers := [4000]\<rparr>)"
  by (simp add: create_enemy_def choice_def enemy_dict_def init_game_eq ChasingEnemy_init_def
        register_and_reschedule_def add_element_def ChasingEnemy_create_def canvas_call_def
        next_id_def int_truediv_def after_def Let_def randint_def)

text \<open>
  C7 as stated fails. In the game of level 1 on an 800 by 500 screen the player stands
  at (50, 250). The scheduler fires, chooses a chaser, of speed 1, and places it at
  (40, 400), moving right and up. After 10 updates the chaser is at (50, 390), at the
  x-distance 0 from the player and still in the approaching half of its x-state. The
  next update takes it to x = 51: the x-distance has grown from 0 to 1.
\<close>

theorem chaser_at_player_x_steps_away:
  "create_enemy 1 40 400 [] ((init_game (TurtleAdventureGame_init 800 500 1))\<lparr>timers := []\<rparr>)
   = Some (None,
       (init_game (TurtleAdventureGame_init 800 500 1))
         \<lparr>elements := [EWaypoint, EHome, EPlayer,
                        EChasing ((ChasingEnemy_init 20 ''red'' 3)
                                    \<lparr>enemy_x := 40, enemy_y := 400, ch_id := Some 4\<rparr>)],
          canvas := [Create_line ''green'', Create_line ''green'', Create_rectangle ''brown'',
                     Create_oval ''red''],
          timers := [4000]\<rparr>)
   \<and> ChasingEnemy_updates 10
       ((ChasingEnemy_init 20 ''red'' 3)\<lparr>enemy_x := 40, enemy_y := 400, ch_id := Some 4\<rparr>)
       (init_game (TurtleAdventureGame_init 800 500 1))
     = (ChasingEnemy_init 20 ''red'' 3)\<lparr>enemy_x := 50, enemy_y := 390, ch_id := Some 4\<rparr>
   \<and> approaching_x
       ((ChasingEnemy_init 20 ''red'' 3)\<lparr>enemy_x := 50, enemy_y := 390, ch_id := Some 4\<rparr>)
       (init_game (TurtleAdventureGame_init 800 500 1))
   \<and> \<bar>enemy_x ((ChasingEnemy_init 20 ''red'' 3)
                   \<lparr>enemy_x := 50, enemy_y := 390, ch_id := Some 4\<rparr>)
        - player_x (init_game (TurtleAdventureGame_init 800 500 1))\<bar> = 0
   \<and> fst (ChasingEnemy_update
            ((ChasingEnemy_init 20 ''red'' 3)\<lparr>enemy_x := 50, enemy_y := 390, ch_id := Some 4\<rparr>)
            (init_game (TurtleAdventureGame_init 800 500 1)))
     = (ChasingEnemy_init 20 ''red'' 3)\<lparr>enemy_x := 51, enemy_y := 389, ch_id := Some 4\<rparr>
   \<and> \<bar>enemy_x ((ChasingEnemy_init 20 ''red'' 3)
                   \<lparr>enemy_x := 51, enemy_y := 389, ch_id := Some 4\<rparr>)
        - player_x (init_game (TurtleAdventureGame_init 800 500 1))\<bar> = 1"
proof -
  have run: "ChasingEnemy_updates 10
       ((ChasingEnemy_init 20 ''red'' 3)\<lparr>enemy_x := 40, enemy_y := 400, ch_id := Some 4\<rparr>)
       (init_game (TurtleAdventureGame_init 800 500 1))
     = (ChasingEnemy_init 20 ''red'' 3)\<lparr>enemy_x := 50, enemy_y := 390, ch_id := Some 4\<rparr>"
    using chase_right_up_run
      [of "(ChasingEnemy_init 20 ''red'' 3)\<lparr>enemy_x := 40, enemy_y := 400, ch_id := Some 4\<rparr>"
          10 "init_game (TurtleAdventureGame_init 800 500 1)"]
    by (simp add: ChasingEnemy_init_def init_game_eq player_x_def player_y_def xcor_def ycor_def)
  have rest: "approaching_x
       ((ChasingEnemy_init 20 ''red'' 3)\<lparr>enemy_x := 50, enemy_y := 390, ch_id := Some 4\<rparr>)
       (init_game (TurtleAdventureGame_init 800 500 1))
   \<and> \<bar>enemy_x ((ChasingEnemy_init 20 ''red'' 3)
                   \<lparr>enemy_x := 50, enemy_y := 390, ch_id := Some 4\<rparr>)
        - player_x (init_game (TurtleAdventureGame_init 800 500 1))\<bar> = 0
   \<and> fst (ChasingEnemy_update
            ((ChasingEnemy_init 20 ''red'' 3)\<lparr>enemy_x := 50, enemy_y := 390, ch_id := Some 4\<rparr>)
            (init_game (TurtleAdventureGame_init 800 500 1)))
     = (ChasingEnemy_init 20 ''red'' 3)\<lparr>enemy_x := 51, enemy_y := 389, ch_id := Some 4\<rparr>
   \<and> \<bar>enemy_x ((ChasingEnemy_init 20 ''red'' 3)
                   \<lparr>enemy_x := 51, enemy_y := 389, ch_id := Some 4\<rparr>)
        - player_x (init_game (TurtleAdventureGame_init 800 500 1))\<bar> = 1"
    by (simp add: ChasingEnemy_update_def Let_def ChasingEnemy_xstate_def approaching_x_def
        ChasingEnemy_ystate_def ChasingEnemy_right_def ChasingEnemy_up_def ChasingEnemy_init_def
        init_game_eq player_x_def player_y_def xcor_def ycor_def)
  from create_enemy_chaser_level1 run rest show ?thesis by (intro conjI) simp_all
qed

section \<open>The spawn scheduler\<close>

lemma reroll_result:
  "reroll w ex us = Some (Inr ex') \<Longrightarrow> 0 \<le> ex \<Longrightarrow> ex \<le> w
    \<Longrightarrow> \<not> (40 < ex' \<and> ex' < 60) \<and> 0 \<le> ex' \<and> ex' \<le> w"
proof (induction us arbitrary: ex)
  case Nil
  then show ?case by (simp split: if_splits)
next
  case (Cons u us)
  show ?case
  proof (cases "40 < ex \<and> ex < 60")
    case True
    with Cons.prems(1) obtain r where r: "randint 0 w u = Inr r"
      and rr: "reroll w r us = Some (Inr ex')"
      by (auto split: sum.splits)
    from randint_bounds [OF r] have "0 \<le> r" "r \<le> w" by simp_all
    with Cons.IH [OF rr] show ?thesis by simp
  next
    case False
    with Cons.prems show ?thesis by auto
  qed
qed

text \<open>The loop ends at the latest when the generator's output is 0.\<close>

lemma reroll_ends: "reroll w ex (us @ [0]) \<noteq> None"
proof (induction us arbitrary: ex)
  case Nil
  show ?case by (simp add: randint_def)
next
  case (Cons u us)
  then show ?case by (simp split: sum.splits)
qed

lemma create_enemy_returns: "create_enemy uk ux uy (us @ [0]) g \<noteq> None"
proof -
  have "reroll (screen_width g) ex (us @ [0]) = None \<Longrightarrow> False" for ex
    using reroll_ends [of "screen_width g" ex us] by simp
  then show ?thesis
    by (auto simp: create_enemy_def Let_def split: prod.splits sum.splits option.splits)
qed

lemma element_x_created:
  "element_x (fst (create (set_enemy_y vy (set_enemy_x vx (new_enemy k g sz col sp))) g1)) g2 = vx"
  by (cases k)
     (simp_all add: RandomWalkEnemy_create_def ChasingEnemy_create_def FencingEnemy_create_def
        DeDestroyerEnemy_create_def Let_def)

lemma register_and_reschedule_ok:
  assumes "register_and_reschedule el g = (None, g')"
  shows "elements g' = elements g @ [fst (create el g)]
       \<and> level g \<noteq> 0
       \<and> timers g' = timers g @ [sgn (level g) * (4000 div \<bar>level g\<bar>)]"
proof -
  obtain el1 g1 where c: "create el g = (el1, g1)" by (cases "create el g")
  have f: "level g1 = level g \<and> timers g1 = timers g \<and> elements g1 = elements g"
    using c
    by (cases el)
       (auto simp: Waypoint_create_def Home_create_def Player_create_def
          RandomWalkEnemy_create_def ChasingEnemy_create_def FencingEnemy_create_def
          DeDestroyerEnemy_create_def Bomb_create_def Let_def canvas_call_def)
  from assms c f show ?thesis
    by (auto simp: register_and_reschedule_def add_element_def Let_def int_truediv_def
          after_def split: if_splits)
qed

text \<open>
  C8, amended. A firing of the scheduler that places its enemy by the rule \<open>random\<close>
  and returns has registered one more element, at an x-coordinate between 0 and the
  screen width that does not lie strictly between 40 and 60: x is drawn again while
  \<open>40 < x < 60\<close>, and the bounds 40 and 60 themselves are accepted. The level is not 0
  then, and the next firing is scheduled \<open>int(4000 / level)\<close> time units later, the
  quotient truncated to an integer: \<open>4000 div level\<close> for a positive level. The firing
  does return once the generator's output for a re-roll is 0.
\<close>

theorem spawn_outside_open_band_and_reschedule:
  assumes c: "create_enemy uk ux uy us g = Some (None, g')"
    and p: "fst (snd (choice enemy_dict uk)) = ''random''"
  shows "length (elements g') = Suc (length (elements g))
       \<and> \<not> (40 < element_x (last (elements g')) g' \<and> element_x (last (elements g')) g' < 60)
       \<and> 0 \<le> element_x (last (elements g')) g'
       \<and> element_x (last (elements g')) g' \<le> real_of_int (screen_width g)
       \<and> level g \<noteq> 0
       \<and> timers g' = timers g @ [sgn (level g) * (4000 div \<bar>level g\<bar>)]
       \<and> (0 < level g \<longrightarrow> timers g' = timers g @ [4000 div level g])
       \<and> create_enemy uk ux uy (us @ [0]) g \<noteq> None"
proof -
  obtain k pos col where ch: "choice enemy_dict uk = (k, pos, col)"
    by (cases "choice enemy_dict uk") auto
  with p have pos: "pos \<noteq> ''home''" by simp
  from c ch pos obtain ex ey ex' where
    x: "randint 0 (screen_width g) ux = Inr ex"
    and rr: "reroll (screen_width g) ex us = Some (Inr ex')"
    and reg: "register_and_reschedule
                (set_enemy_y (real_of_int ey)
                   (set_enemy_x (real_of_int ex')
                      (new_enemy k g 20 col (gen_speed (enemy_generator g))))) g = (None, g')"
    by (auto simp: create_enemy_def Let_def split: sum.splits option.splits)
  from randint_bounds [OF x] have "0 \<le> ex" "ex \<le> screen_width g" by simp_all
  from reroll_result [OF rr this] have b: "\<not> (40 < ex' \<and> ex' < 60)" "0 \<le> ex'"
    "ex' \<le> screen_width g"
    by simp_all
  from register_and_reschedule_ok [OF reg] have
    e: "elements g' = elements g @ [fst (create (set_enemy_y (real_of_int ey)
                   (set_enemy_x (real_of_int ex')
                      (new_enemy k g 20 col (gen_speed (enemy_generator g))))) g)]"
    and l: "level g \<noteq> 0"
    and t: "timers g' = timers g @ [sgn (level g) * (4000 div \<bar>level g\<bar>)]"
    by simp_all
  from e have lx: "element_x (last (elements g')) g' = real_of_int ex'"
    by (simp add: element_x_created)
  have "0 < level g \<longrightarrow> sgn (level g) * (4000 div \<bar>level g\<bar>) = 4000 div level g"
    by simp
  with e lx b l t create_enemy_returns [of uk ux uy us g] show ?thesis by auto
qed

lemma create_enemy_walker_level1:
  "create_enemy 0 45 100 [700] ((init_game (TurtleAdventureGame_init 800 500 1))\<lparr>timers := []\<rparr>)
   = Some (None,
       (init_game (TurtleAdventureGame_init 800 500 1))
         \<lparr>elements := [EWaypoint, EHome, EPlayer,
                        ERandomWalk ((RandomWalkEnemy_init 20 ''purple'' 3)
                                       \<lparr>enemy_x := 700, enemy_y := 100, rw_id := Some 4\<rparr>)],
          canvas := [Create_line ''green'', Create_line ''green'', Create_rectangle ''brown'',
                     Create_oval ''purple''],
          timers := [4000]\<rparr>)"
  by (simp add: create_enemy_def choice_def enemy_dict_def init_game_eq RandomWalkEnemy_init_def
        register_and_reschedule_def add_element_def RandomWalkEnemy_create_def canvas_call_def
        next_id_def int_truediv_def after_def Let_def randint_def)

text \<open>
  A firing in the game of level 1 on an 800 by 500 screen: the scheduler chooses a
  walker, draws x = 45, inside the band, draws again and places the walker at x = 700;
  the next firing is 4000 time units later.
\<close>

theorem spawn_outside_open_band_and_reschedule_witness:
  "create_enemy 0 45 100 [700] ((init_game (TurtleAdventureGame_init 800 500 1))\<lparr>timers := []\<rparr>)
   = Some (None,
       (init_game (TurtleAdventureGame_init 800 500 1))
         \<lparr>elements := [EWaypoint, EHome, EPlayer,
                        ERandomWalk ((RandomWalkEnemy_init 20 ''purple'' 3)
                                       \<lparr>enemy_x := 700, enemy_y := 100, rw_id := Some 4\<rparr>)],
          canvas := [Create_line ''green'', Create_line ''green'', Create_rectangle ''brown'',
                     Create_oval ''purple''],
          timers := [4000]\<rparr>)
   \<and> fst (snd (choice enemy_dict 0)) = ''random''
   \<and> \<not> (40 < enemy_x ((RandomWalkEnemy_init 20 ''purple'' 3)
                        \<lparr>enemy_x := 700, enemy_y := 100, rw_id := Some 4\<rparr>)
        \<and> enemy_x ((RandomWalkEnemy_init 20 ''purple'' 3)
                        \<lparr>enemy_x := 700, enemy_y := 100, rw_id := Some 4\<rparr>) < 60)
   \<and> [4000] = [] @ [4000 div (1::int)]"
proof -
  have p: "fst (snd (choice enemy_dict 0)) = ''random''"
    by (simp add: choice_def enemy_dict_def)
  from spawn_outside_open_band_and_reschedule [OF create_enemy_walker_level1 p]
    create_enemy_walker_level1 p
  show ?thesis by (simp add: init_game_eq)
qed

text \<open>
  C8 as stated fails. A firing in the game of level 3 on an 800 by 500 screen: the
  scheduler chooses a walker and draws x = 45, then 50, then 60. The loop ends at 60,
  which is not below 60, and the walker is placed at x = 60, inside the band [40, 60].
  The next firing is 1333 time units later, which is not 4000 / 3.
\<close>

theorem spawn_at_x_60_and_truncated_delay:
  "create_enemy 0 45 100 [50, 60] ((init_game (TurtleAdventureGame_init 800 500 3))\<lparr>timers := []\<rparr>)
   = Some (None,
       (init_game (TurtleAdventureGame_init 800 500 3))
         \<lparr>elements := [EWaypoint, EHome, EPlayer,
                        ERandomWalk \<lparr>enemy_x = 60, enemy_y = 100, enemy_size = 20,
                                     enemy_color = ''purple'', rw_id = Some 4,
                                     rw_color2 = ''purple'', rw_state = Walk_right,
                                     rw_speed = 9\<rparr>],
          canvas := [Create_line ''green'', Create_line ''green'', Create_rectangle ''brown'',
                     Create_oval ''purple''],
          timers := [1333]\<rparr>)
   \<and> (60::real) \<in> {40..60}
   \<and> real_of_int 1333 \<noteq> 4000 / real_of_int 3"
  by (simp add: create_enemy_def choice_def enemy_dict_def init_game_eq RandomWalkEnemy_init_def
        register_and_reschedule_def add_element_def RandomWalkEnemy_create_def canvas_call_def
        next_id_def int_truediv_def after_def Let_def randint_def)

section \<open>The player\<close>














end
